theory Spec2Isabelle
  imports Main "HOL-Library.Multiset"
begin

section \<open>JavaScript values\<close>

text \<open>
  A property of a JavaScript object is absent (it reads as \<open>undefined\<close>), \<open>null\<close>, or
  holds a value of the type the schema expects. A property of another JavaScript type
  is outside the model.
\<close>

datatype 'a js = Undefined | Null | Val 'a

text \<open>What a template literal \<open>`${x}`\<close> prints for a string-valued property.\<close>

fun str_text :: "string js \<Rightarrow> string" where
  "str_text Undefined = ''undefined''"
| "str_text Null = ''null''"
| "str_text (Val s) = s"

text \<open>
  A JavaScript number is a double. The jobs never compute with one: a number enters a
  command only through a template literal, which prints it with the engine's
  \<open>Number.prototype.toString\<close>. A number is therefore carried by the text that
  conversion gives for it: the port 443 by \<open>443\<close>, the fraction 80.5 by \<open>80.5\<close>, the
  number \<open>10^21\<close> by \<open>1e+21\<close>.
\<close>

datatype number = Number (toString: string)

fun num_text :: "number js \<Rightarrow> string" where
  "num_text Undefined = ''undefined''"
| "num_text Null = ''null''"
| "num_text (Val n) = toString n"

text \<open>
  \<open>String.prototype.toLowerCase\<close> on the letters \<open>A\<close> to \<open>Z\<close>; every other character is
  kept (no character outside ASCII lowercases to a letter of \<open>install\<close> or
  \<open>uninstall\<close>, the only strings a lowercased token is compared with).
\<close>

definition lower_char :: "char \<Rightarrow> char" where
  "lower_char c = (let n = (of_char c :: nat) in if 65 \<le> n \<and> n \<le> 90 then char_of (n + 32) else c)"

definition toLowerCase :: "string \<Rightarrow> string" where
  "toLowerCase s = map lower_char s"

text \<open>\<open>x || d\<close> on a string property: \<open>undefined\<close>, \<open>null\<close> and the empty string are falsy.\<close>

fun or_default :: "string js \<Rightarrow> string \<Rightarrow> string" where
  "or_default (Val s) d = (if s = [] then d else s)"
| "or_default _ d = d"

text \<open>\<open>xs || []\<close> on an array property, and \<open>_.each\<close> over one: nothing to visit when it is absent or null.\<close>

fun or_empty :: "'a list js \<Rightarrow> 'a list" where
  "or_empty (Val xs) = xs"
| "or_empty _ = []"

text \<open>\<open>_.isNil\<close>.\<close>

fun isNil :: "'a js \<Rightarrow> bool" where
  "isNil (Val _) = False"
| "isNil _ = True"

section \<open>Errors, commands and the execution context\<close>

text \<open>
  \<open>IllegalArgumentError\<close> carries its message. \<open>TypeError\<close> is what reading a property of
  \<open>undefined\<close> or \<open>null\<close> throws; inside a promise executor it rejects the promise.
  \<open>DataSourceError\<close> is whatever the database client rejects with.
\<close>

datatype error = IllegalArgumentError string | TypeError | DataSourceError string

datatype SecurityCommand = SecurityCommand (cmd_type: string) (cmd_value: string)

definition asIptables4Command :: "string \<Rightarrow> SecurityCommand" where
  "asIptables4Command command = SecurityCommand ''iptables-4'' command"

definition asIpSetCommand :: "string \<Rightarrow> SecurityCommand" where
  "asIpSetCommand command = SecurityCommand ''ipset'' command"

record NetworkItem =
  ni_value :: "string js"
  ni_description :: "string js"

text \<open>
  The entry of the job in the configuration file, \<open>context.configurationJob\<close>: the
  command-line driver (\<^verbatim>\<open>src/lib/bin/generic-main.js\<close>) puts it in the context, and
  takes \<open>context.jobConfiguration\<close> from its \<open>configuration\<close> key. The field
  \<open>global_trustedItems\<close> is what the path \<open>configuration.global.network.trustedItems\<close>
  of the context holds.
\<close>

record ConfigurationJob =
  cj_name :: "string js"
  cj_chainName :: "string js"

record 'cfg ExecutionContext =
  jobCommand_type :: string
  global_trustedItems :: "NetworkItem list js"
  configurationJob :: "ConfigurationJob js"
  jobConfiguration :: 'cfg
  rawJobConfiguration :: "'cfg js"
  commands_install :: "SecurityCommand list"
  commands_unInstall :: "SecurityCommand list"

section \<open>The schema library\<close>

text \<open>
  Joi is not part of the repository. Its string formats, the numbers \<open>Joi.number()\<close>
  accepts and the wording of its error report are parameters; its presence rules are
  written out below.
\<close>

record JoiLib =
  ip_cidr_required :: "string \<Rightarrow> bool"
  ip_cidr_optional :: "string \<Rightarrow> bool"
  ip_cidr_forbidden :: "string \<Rightarrow> bool"
  uri_postgres :: "string \<Rightarrow> bool"
  number_accepted :: "number \<Rightarrow> bool"
  error_message :: string

text \<open>A key without \<open>.required()\<close> may be absent; \<open>null\<close> is not a value of any type.\<close>

fun optional :: "('a \<Rightarrow> bool) \<Rightarrow> 'a js \<Rightarrow> bool" where
  "optional p Undefined = True"
| "optional p Null = False"
| "optional p (Val v) = p v"

fun required :: "('a \<Rightarrow> bool) \<Rightarrow> 'a js \<Rightarrow> bool" where
  "required p (Val v) = p v"
| "required p _ = False"

text \<open>\<open>.allow(null)\<close> on a key that is not required.\<close>

fun allow_null :: "('a \<Rightarrow> bool) \<Rightarrow> 'a js \<Rightarrow> bool" where
  "allow_null p (Val v) = p v"
| "allow_null p _ = True"

text \<open>\<open>Joi.string()\<close> refuses the empty string.\<close>

definition joi_string :: "string \<Rightarrow> bool" where
  "joi_string s = (s \<noteq> [])"

definition joi_string_format :: "(string \<Rightarrow> bool) \<Rightarrow> string \<Rightarrow> bool" where
  "joi_string_format format s = (s \<noteq> [] \<and> format s)"

definition joi_number :: "JoiLib \<Rightarrow> number \<Rightarrow> bool" where
  "joi_number J n = number_accepted J n"

text \<open>
  \<open>Joi.array().items(t)\<close>: every element matches \<open>t\<close>. When \<open>t\<close> is \<open>.required()\<close> the
  array must also hold at least one element.
\<close>

definition array_items :: "('a \<Rightarrow> bool) \<Rightarrow> 'a list \<Rightarrow> bool" where
  "array_items t xs = list_all t xs"

definition array_items_required :: "('a \<Rightarrow> bool) \<Rightarrow> 'a list \<Rightarrow> bool" where
  "array_items_required t xs = (xs \<noteq> [] \<and> list_all t xs)"

text \<open>\<open>Joi.validate\<close>: the error, or the value with the schema's defaults filled in.\<close>

definition Joi_validate :: "JoiLib \<Rightarrow> ('c \<Rightarrow> bool) \<Rightarrow> ('c \<Rightarrow> 'c) \<Rightarrow> 'c \<Rightarrow> string + 'c" where
  "Joi_validate J schema defaults v = (if schema v then Inr (defaults v) else Inl (error_message J))"

section \<open>The workflow\<close>

text \<open>
  The promise chain: each step runs when the one before has resolved; the first
  rejection skips the rest. A step that rejects has not changed the context. The
  second component is the context as the run leaves it.
\<close>

fun run_steps :: "('c \<Rightarrow> error + 'c) list \<Rightarrow> 'c \<Rightarrow> error option \<times> 'c" where
  "run_steps [] context = (None, context)"
| "run_steps (step # steps) context =
     (case step context of
        Inl e \<Rightarrow> (Some e, context)
      | Inr context' \<Rightarrow> run_steps steps context')"

definition workflow ::
  "('cfg ExecutionContext \<Rightarrow> error + 'cfg ExecutionContext) list \<Rightarrow> 'cfg ExecutionContext
    \<Rightarrow> (error + SecurityCommand list) \<times> 'cfg ExecutionContext" where
  "workflow steps context =
     (case run_steps steps context of
        (Some e, context') \<Rightarrow> (Inl e, context')
      | (None, context') \<Rightarrow>
          (Inr (if jobCommand_type context' = ''install'' then commands_install context'
                else commands_unInstall context'), context'))"

text \<open>\<open>_.each\<close> with a body that may throw: the first throw ends the loop.\<close>

fun each_result :: "('a \<Rightarrow> error + 'b) \<Rightarrow> 'a list \<Rightarrow> error + 'b list" where
  "each_result f [] = Inr []"
| "each_result f (x # xs) =
     (case f x of
        Inl e \<Rightarrow> Inl e
      | Inr y \<Rightarrow> (case each_result f xs of Inl e \<Rightarrow> Inl e | Inr ys \<Rightarrow> Inr (y # ys)))"

section \<open>The netfilter-preparation job\<close>

text \<open>
  \<^verbatim>\<open>src/lib/jobs/prepare-netfilter.js\<close>. The configuration is the object the schema
  describes; keys the schema does not name are left out.
\<close>

record RuleSet =
  rs_defaultAction :: "string js"

record InterfaceRules =
  rules_input :: "RuleSet js"
  rules_output :: "RuleSet js"

record PrimaryInterface =
  pi_name :: "string js"
  pi_networks :: "NetworkItem list js"
  pi_rules :: "InterfaceRules js"

record PrepareNetwork =
  pn_trustedItems :: "NetworkItem list js"
  pn_primaryInterfaces :: "PrimaryInterface list js"

record PrepareConfiguration =
  pc_network :: "PrepareNetwork js"

definition schema_NetworkItem :: "JoiLib \<Rightarrow> NetworkItem \<Rightarrow> bool" where
  "schema_NetworkItem J i =
     (required (joi_string_format (ip_cidr_required J)) (ni_value i)
      \<and> optional joi_string (ni_description i))"

definition schema_RuleSet :: "RuleSet \<Rightarrow> bool" where
  "schema_RuleSet r = required joi_string (rs_defaultAction r)"

definition schema_PrimaryInterface :: "JoiLib \<Rightarrow> PrimaryInterface \<Rightarrow> bool" where
  "schema_PrimaryInterface J i =
     (required joi_string (pi_name i)
      \<and> required (array_items_required (schema_NetworkItem J)) (pi_networks i)
      \<and> required (\<lambda>r. required schema_RuleSet (rules_input r)
                       \<and> required schema_RuleSet (rules_output r)) (pi_rules i))"

definition schema_PrepareNetfilterJob :: "JoiLib \<Rightarrow> PrepareConfiguration \<Rightarrow> bool" where
  "schema_PrepareNetfilterJob J c =
     required (\<lambda>n. optional (array_items (schema_NetworkItem J)) (pn_trustedItems n)
                   \<and> required (array_items_required (schema_PrimaryInterface J))
                        (pn_primaryInterfaces n)) (pc_network c)"

definition validate_step ::
  "JoiLib \<Rightarrow> ('cfg \<Rightarrow> bool) \<Rightarrow> ('cfg \<Rightarrow> 'cfg) \<Rightarrow> 'cfg ExecutionContext
    \<Rightarrow> error + 'cfg ExecutionContext" where
  "validate_step J schema defaults context =
     (case Joi_validate J schema defaults (jobConfiguration context) of
        Inl message \<Rightarrow> Inl (IllegalArgumentError (''Invalid configuration: '' @ message))
      | Inr configValidated \<Rightarrow>
          Inr (context\<lparr>rawJobConfiguration := Val (jobConfiguration context),
                       jobConfiguration := configValidated\<rparr>))"

definition PrepareNetfilterJob_validateConfiguration ::
  "JoiLib \<Rightarrow> PrepareConfiguration ExecutionContext \<Rightarrow> error + PrepareConfiguration ExecutionContext" where
  "PrepareNetfilterJob_validateConfiguration J =
     validate_step J (schema_PrepareNetfilterJob J) (\<lambda>c. c)"

text \<open>Both lists of a generator are appended to the context's at its end.\<close>

definition append_commands ::
  "SecurityCommand list \<Rightarrow> SecurityCommand list \<Rightarrow> 'cfg ExecutionContext \<Rightarrow> 'cfg ExecutionContext" where
  "append_commands installCommands unInstallCommands context =
     context\<lparr>commands_install := commands_install context @ installCommands,
             commands_unInstall := commands_unInstall context @ unInstallCommands\<rparr>"

definition vital_network_commands :: "string \<Rightarrow> NetworkItem \<Rightarrow> SecurityCommand list" where
  "vital_network_commands chainName interfaceNetwork =
     (let v = str_text (ni_value interfaceNetwork) in
      [asIptables4Command (''-A IN_'' @ chainName @ '' --in-interface lo -s '' @ v @ '' -d '' @ v @ '' -j ACCEPT''),
       asIptables4Command (''-A IN_'' @ chainName @ '' --in-interface lo -s '' @ v @ '' -d 127.0.0.0/8 -j ACCEPT''),
       asIptables4Command (''-A OUT_'' @ chainName @ '' --out-interface lo -s '' @ v @ '' -d '' @ v @ '' -j ACCEPT''),
       asIptables4Command (''-A OUT_'' @ chainName @ '' --out-interface lo -s '' @ v @ '' -d 127.0.0.0/8 -j ACCEPT'')])"

definition vital_interface_commands :: "string \<Rightarrow> PrimaryInterface \<Rightarrow> SecurityCommand list" where
  "vital_interface_commands chainName primaryInterface =
     (let n = str_text (pi_name primaryInterface) in
      [asIptables4Command (''-A IN_'' @ chainName @ '' --in-interface '' @ n @ '' -p udp --dport 67:68 --sport 67:68 -j ACCEPT''),
       asIptables4Command (''-A OUT_'' @ chainName @ '' --out-interface '' @ n @ '' -p udp --dport 67:68 --sport 67:68 -j ACCEPT''),
       asIptables4Command (''-A OUT_'' @ chainName @ '' --out-interface '' @ n @ '' -p udp --sport 1024:65535 --dport 53 -m state --state NEW,ESTABLISHED,RELATED -j ACCEPT''),
       asIptables4Command (''-A IN_'' @ chainName @ '' --in-interface '' @ n @ '' -p udp --sport 53 --dport 1024:65535 -m state --state ESTABLISHED,RELATED -j ACCEPT''),
       asIptables4Command (''-A OUT_'' @ chainName @ '' --out-interface '' @ n @ '' -p tcp --sport 1024:65535 --dport 53 -m state --state NEW,ESTABLISHED,RELATED -j ACCEPT''),
       asIptables4Command (''-A IN_'' @ chainName @ '' --in-interface '' @ n @ '' -p tcp --sport 53 --dport 1024:65535 -m state --state ESTABLISHED,RELATED -j ACCEPT''),
       asIptables4Command (''-A OUT_'' @ chainName @ '' -p icmp --in-interface '' @ n @ '' -d 0.0.0.0/0 -m state --state NEW,ESTABLISHED,RELATED -j ACCEPT''),
       asIptables4Command (''-A IN_'' @ chainName @ '' -p icmp --out-interface '' @ n @ '' -s 0.0.0.0/0 -m state --state ESTABLISHED,RELATED -j ACCEPT''),
       asIptables4Command (''-A IN_'' @ chainName @ '' -p icmp --icmp-type 8 --in-interface '' @ n @ '' -s 0.0.0.0/0 -m state --state NEW,ESTABLISHED,RELATED -j ACCEPT''),
       asIptables4Command (''-A OUT_'' @ chainName @ '' -p icmp --out-interface '' @ n @ '' -d 0.0.0.0/0 -m state --state ESTABLISHED,RELATED -j ACCEPT''),
       asIptables4Command (''-A OUT_'' @ chainName @ '' --out-interface '' @ n @ '' -p udp --sport 1024:65535 --dport 123 -j ACCEPT''),
       asIptables4Command (''-A IN_'' @ chainName @ '' --in-interface '' @ n @ '' -p udp --sport 123 --dport 1024:65535 -m state --state ESTABLISHED,RELATED -j ACCEPT''),
       asIptables4Command (''-A OUT_'' @ chainName @ '' --out-interface '' @ n @ '' -m owner --uid-owner 0 -j ACCEPT''),
       asIptables4Command (''-A IN_'' @ chainName @ '' --in-interface '' @ n @ '' -m state --state ESTABLISHED,RELATED -j ACCEPT'')]
      @ concat (map (vital_network_commands chainName) (or_empty (pi_networks primaryInterface))))"

text \<open>
  The two local lists of each generator, \<open>installCommands\<close> and \<open>unInstallCommands\<close>,
  as functions of what the generator reads.
\<close>

definition vital_installCommands :: "PrimaryInterface list \<Rightarrow> SecurityCommand list" where
  "vital_installCommands primaryInterfaces =
     (let chainName = ''vital_access_0'' in
      [asIptables4Command (''-N IN_'' @ chainName),
       asIptables4Command (''-N OUT_'' @ chainName)]
      @ concat (map (vital_interface_commands chainName) primaryInterfaces)
      @ [asIptables4Command (''-A IN_'' @ chainName @ '' ! --in-interface lo -d 127.0.0.0/8 -j REJECT''),
         asIptables4Command (''-A OUT_'' @ chainName @ '' --out-interface lo -d 127.0.0.0/8 -j ACCEPT''),
         asIptables4Command (''-A IN_'' @ chainName @ '' -j RETURN''),
         asIptables4Command (''-A OUT_'' @ chainName @ '' -j RETURN'')])"

definition vital_unInstallCommands :: "SecurityCommand list" where
  "vital_unInstallCommands =
     (let chainName = ''vital_access_0'' in
      [asIptables4Command (''-F IN_'' @ chainName),
       asIptables4Command (''-X IN_'' @ chainName),
       asIptables4Command (''-F OUT_'' @ chainName),
       asIptables4Command (''-X OUT_'' @ chainName)])"

definition generateVitalAccessChain ::
  "PrepareConfiguration ExecutionContext \<Rightarrow> error + PrepareConfiguration ExecutionContext" where
  "generateVitalAccessChain context =
     (case pc_network (jobConfiguration context) of
        Val network \<Rightarrow>
          Inr (append_commands (vital_installCommands (or_empty (pn_primaryInterfaces network)))
                 vital_unInstallCommands context)
      | _ \<Rightarrow> Inl TypeError)"

definition block_installCommands :: "SecurityCommand list" where
  "block_installCommands =
     (let chainName = ''block_access_0'' in
      [asIptables4Command (''-N IN_'' @ chainName),
       asIpSetCommand ''-! create block_net hash:net'',
       asIptables4Command (''-A IN_'' @ chainName @ '' -j DROP'')])"

definition block_unInstallCommands :: "SecurityCommand list" where
  "block_unInstallCommands =
     (let chainName = ''block_access_0'' in
      [asIptables4Command (''-F IN_'' @ chainName),
       asIptables4Command (''-X IN_'' @ chainName),
       asIpSetCommand ''-! destroy block_net''])"

definition generateBlockNetworkChain ::
  "PrepareConfiguration ExecutionContext \<Rightarrow> error + PrepareConfiguration ExecutionContext" where
  "generateBlockNetworkChain context =
     Inr (append_commands block_installCommands block_unInstallCommands context)"

definition access_installCommands :: "SecurityCommand list" where
  "access_installCommands =
     (let chainName = ''services_access_0'' in
      [asIptables4Command (''-N IN_'' @ chainName),
       asIptables4Command (''-A IN_'' @ chainName @ '' -j RETURN''),
       asIptables4Command (''-N OUT_'' @ chainName),
       asIptables4Command (''-A OUT_'' @ chainName @ '' -j RETURN'')])"

definition access_unInstallCommands :: "SecurityCommand list" where
  "access_unInstallCommands =
     (let chainName = ''services_access_0'' in
      [asIptables4Command (''-F IN_'' @ chainName),
       asIptables4Command (''-X IN_'' @ chainName),
       asIptables4Command (''-F OUT_'' @ chainName),
       asIptables4Command (''-X OUT_'' @ chainName)])"

definition generateServiceAccessChain ::
  "PrepareConfiguration ExecutionContext \<Rightarrow> error + PrepareConfiguration ExecutionContext" where
  "generateServiceAccessChain context =
     Inr (append_commands access_installCommands access_unInstallCommands context)"

text \<open>\<open>_.get(object, path, [])\<close>: the default stands in for \<open>undefined\<close> only.\<close>

fun get_default :: "'a list js \<Rightarrow> 'a list js" where
  "get_default Undefined = Val []"
| "get_default v = v"

definition get_job_trustedItems :: "PrepareConfiguration \<Rightarrow> NetworkItem list js" where
  "get_job_trustedItems c =
     (case pc_network c of Val network \<Rightarrow> get_default (pn_trustedItems network) | _ \<Rightarrow> Val [])"

text \<open>\<open>_.concat\<close> splices an array argument and keeps any other value as one element.\<close>

fun concat_argument :: "'a list js \<Rightarrow> 'a js list" where
  "concat_argument (Val xs) = map Val xs"
| "concat_argument v = [case v of Null \<Rightarrow> Null | _ \<Rightarrow> Undefined]"

definition trusted_add :: "NetworkItem \<Rightarrow> SecurityCommand" where
  "trusted_add network = asIpSetCommand (''-! add trusted_net '' @ str_text (ni_value network))"

text \<open>Reading \<open>network.value\<close> of an element that is not an object throws.\<close>

definition trusted_add_command :: "NetworkItem js \<Rightarrow> error + SecurityCommand" where
  "trusted_add_command network =
     (case network of Val item \<Rightarrow> Inr (trusted_add item) | _ \<Rightarrow> Inl TypeError)"

definition trusted_installCommands :: "SecurityCommand list \<Rightarrow> SecurityCommand list" where
  "trusted_installCommands adds =
     (let chainName = ''trusted_access_0'' in
      [asIpSetCommand ''-! create trusted_net hash:net'']
      @ adds
      @ [asIptables4Command (''-N IN_'' @ chainName),
         asIptables4Command (''-A IN_'' @ chainName @ '' -m set --match-set trusted_net src -j ACCEPT''),
         asIptables4Command (''-A IN_'' @ chainName @ '' -j RETURN''),
         asIptables4Command (''-N OUT_'' @ chainName),
         asIptables4Command (''-A OUT_'' @ chainName @ '' -m set --match-set trusted_net dst -j ACCEPT''),
         asIptables4Command (''-A OUT_'' @ chainName @ '' -j RETURN'')])"

definition trusted_unInstallCommands :: "SecurityCommand list" where
  "trusted_unInstallCommands =
     (let chainName = ''trusted_access_0'' in
      [asIptables4Command (''-F IN_'' @ chainName),
       asIptables4Command (''-X IN_'' @ chainName),
       asIptables4Command (''-F OUT_'' @ chainName),
       asIptables4Command (''-X OUT_'' @ chainName),
       asIpSetCommand ''-! destroy trusted_net''])"

definition generateTrustedNetworkChain ::
  "PrepareConfiguration ExecutionContext \<Rightarrow> error + PrepareConfiguration ExecutionContext" where
  "generateTrustedNetworkChain context =
     (let globalTrustedNetworks = get_default (global_trustedItems context);
          jobTrustedNetworks = get_job_trustedItems (jobConfiguration context);
          trustedNetworks = concat_argument globalTrustedNetworks @ concat_argument jobTrustedNetworks
      in case each_result trusted_add_command trustedNetworks of
           Inl e \<Rightarrow> Inl e
         | Inr adds \<Rightarrow>
             Inr (append_commands (trusted_installCommands adds) trusted_unInstallCommands context))"

text \<open>\<open>primaryInterface.rules.input.defaultAction\<close>.\<close>

definition input_defaultAction :: "PrimaryInterface \<Rightarrow> error + string js" where
  "input_defaultAction primaryInterface =
     (case pi_rules primaryInterface of
        Val rules \<Rightarrow> (case rules_input rules of Val input \<Rightarrow> Inr (rs_defaultAction input) | _ \<Rightarrow> Inl TypeError)
      | _ \<Rightarrow> Inl TypeError)"

text \<open>The install and the uninstall command of one primary interface's default action.\<close>

definition default_install_command :: "string js \<Rightarrow> string js \<Rightarrow> SecurityCommand" where
  "default_install_command name action =
     asIptables4Command (''-A INPUT --in-interface '' @ str_text name @ '' -j '' @ str_text action)"

definition default_unInstall_command :: "string js \<Rightarrow> string js \<Rightarrow> SecurityCommand" where
  "default_unInstall_command name action =
     asIptables4Command (''-D INPUT --in-interface '' @ str_text name @ '' -j '' @ str_text action)"

definition interface_default_commands ::
  "PrimaryInterface \<Rightarrow> error + SecurityCommand \<times> SecurityCommand" where
  "interface_default_commands primaryInterface =
     (case input_defaultAction primaryInterface of
        Inl e \<Rightarrow> Inl e
      | Inr action \<Rightarrow>
          Inr (default_install_command (pi_name primaryInterface) action,
               default_unInstall_command (pi_name primaryInterface) action))"

definition root_installCommands :: "SecurityCommand list \<Rightarrow> SecurityCommand list" where
  "root_installCommands defaults =
     [asIptables4Command ''-I INPUT 1 -j IN_trusted_access_0'',
      asIptables4Command ''-I INPUT 2 -j IN_vital_access_0'',
      asIptables4Command ''-I INPUT 3 -m set --match-set block_net src -j IN_block_access_0'',
      asIptables4Command ''-I INPUT 4 -j IN_services_access_0'']
     @ defaults
     @ [asIptables4Command ''-I OUTPUT 1 -j OUT_trusted_access_0'',
        asIptables4Command ''-I OUTPUT 2 -j OUT_vital_access_0'',
        asIptables4Command ''-I OUTPUT 3 -j OUT_services_access_0'']"

definition root_unInstallCommands :: "SecurityCommand list \<Rightarrow> SecurityCommand list" where
  "root_unInstallCommands defaults =
     [asIptables4Command ''-D INPUT -j IN_trusted_access_0'',
      asIptables4Command ''-D INPUT -j IN_vital_access_0'',
      asIptables4Command ''-D INPUT -m set --match-set block_net src -j IN_block_access_0'',
      asIptables4Command ''-D INPUT -j IN_services_access_0'']
     @ defaults
     @ [asIptables4Command ''-D OUTPUT -j OUT_trusted_access_0'',
        asIptables4Command ''-D OUTPUT -j OUT_vital_access_0'',
        asIptables4Command ''-D OUTPUT -j OUT_services_access_0'']"

definition generateRootAccessChains ::
  "PrepareConfiguration ExecutionContext \<Rightarrow> error + PrepareConfiguration ExecutionContext" where
  "generateRootAccessChains context =
     (case pc_network (jobConfiguration context) of
        Val network \<Rightarrow>
          (case each_result interface_default_commands (or_empty (pn_primaryInterfaces network)) of
             Inl e \<Rightarrow> Inl e
           | Inr defaults \<Rightarrow>
               Inr (append_commands (root_installCommands (map fst defaults))
                      (root_unInstallCommands (map snd defaults)) context))
      | _ \<Rightarrow> Inl TypeError)"

text \<open>
  \<open>execute\<close> empties both command lists, chooses the steps by the lowercased token,
  and rejects any other token before the first step.
\<close>

definition PrepareNetfilterJob_execute ::
  "JoiLib \<Rightarrow> PrepareConfiguration ExecutionContext
    \<Rightarrow> (error + SecurityCommand list) \<times> PrepareConfiguration ExecutionContext" where
  "PrepareNetfilterJob_execute J context0 =
     (let context = context0\<lparr>commands_install := [], commands_unInstall := []\<rparr>;
          steps = [PrepareNetfilterJob_validateConfiguration J]
      in if toLowerCase (jobCommand_type context) = ''install'' then
           workflow (steps @ [generateVitalAccessChain, generateBlockNetworkChain,
                              generateServiceAccessChain, generateTrustedNetworkChain,
                              generateRootAccessChains]) context
         else if toLowerCase (jobCommand_type context) = ''uninstall'' then
           workflow (steps @ [generateRootAccessChains, generateTrustedNetworkChain,
                              generateServiceAccessChain, generateBlockNetworkChain,
                              generateVitalAccessChain]) context
         else (Inl (IllegalArgumentError (''Invalid command '' @ jobCommand_type context)), context))"

section \<open>The generic service job\<close>

text \<open>\<^verbatim>\<open>src/unnamed/part_000\<close>.\<close>

record ServiceItem =
  si_portNumber :: "number js"
  si_sourceNetworks :: "string list js"
  si_protocol :: "string js"
  si_destinationNetwork :: "string js"

record ServiceNetwork =
  sn_items :: "ServiceItem list js"

record ServiceConfiguration =
  sc_chainName :: "string js"
  sc_network :: "ServiceNetwork js"

definition schema_ServiceItem :: "JoiLib \<Rightarrow> ServiceItem \<Rightarrow> bool" where
  "schema_ServiceItem J i =
     (required (joi_number J) (si_portNumber i)
      \<and> allow_null (array_items (joi_string_format (ip_cidr_optional J))) (si_sourceNetworks i)
      \<and> required joi_string (si_protocol i)
      \<and> allow_null (joi_string_format (ip_cidr_optional J)) (si_destinationNetwork i))"

definition schema_GenericServiceJob :: "JoiLib \<Rightarrow> ServiceConfiguration \<Rightarrow> bool" where
  "schema_GenericServiceJob J c =
     (optional joi_string (sc_chainName c)
      \<and> required (\<lambda>n. required (array_items (schema_ServiceItem J)) (sn_items n)) (sc_network c))"

definition GenericServiceJob_validateConfiguration ::
  "JoiLib \<Rightarrow> ServiceConfiguration ExecutionContext \<Rightarrow> error + ServiceConfiguration ExecutionContext" where
  "GenericServiceJob_validateConfiguration J =
     validate_step J (schema_GenericServiceJob J) (\<lambda>c. c)"

definition GenericServiceJob_getServiceChainName :: string where
  "GenericServiceJob_getServiceChainName = ''genericServiceName''"

definition service_item_commands :: "string \<Rightarrow> ServiceItem \<Rightarrow> SecurityCommand list" where
  "service_item_commands chainName item =
     (let sourceNetworks = or_empty (si_sourceNetworks item);
          destinationNetworkPart =
            (if isNil (si_destinationNetwork item) then []
             else '' -d '' @ str_text (si_destinationNetwork item));
          protocolPortNumberPart =
            '' -p '' @ str_text (si_protocol item) @ '' --sport 1024:65535 --dport ''
              @ num_text (si_portNumber item)
      in if length sourceNetworks = 0 then
           [asIptables4Command (''-A IN_'' @ chainName @ '' '' @ destinationNetworkPart
              @ protocolPortNumberPart @ '' -j ACCEPT'')]
         else
           map (\<lambda>n. asIptables4Command (''-A IN_'' @ chainName @ '' -s '' @ n @ '' ''
                  @ destinationNetworkPart @ protocolPortNumberPart @ '' -j ACCEPT''))
             sourceNetworks)"

definition service_installCommands :: "string \<Rightarrow> ServiceItem list \<Rightarrow> SecurityCommand list" where
  "service_installCommands chainName networkItems =
     [asIptables4Command (''-N IN_'' @ chainName),
      asIptables4Command (''-N OUT_'' @ chainName)]
     @ concat (map (service_item_commands chainName) networkItems)
     @ [asIptables4Command (''-A IN_'' @ chainName @ '' -j RETURN''),
        asIptables4Command (''-A OUT_'' @ chainName @ '' -j RETURN''),
        asIptables4Command (''-I IN_services_access_0 1 -j IN_'' @ chainName),
        asIptables4Command (''-I OUT_services_access_0 1 -j OUT_'' @ chainName)]"

definition service_unInstallCommands :: "string \<Rightarrow> SecurityCommand list" where
  "service_unInstallCommands chainName =
     [asIptables4Command (''-D IN_services_access_0 -j IN_'' @ chainName),
      asIptables4Command (''-D OUT_services_access_0 -j OUT_'' @ chainName),
      asIptables4Command (''-F IN_'' @ chainName),
      asIptables4Command (''-X IN_'' @ chainName),
      asIptables4Command (''-F OUT_'' @ chainName),
      asIptables4Command (''-X OUT_'' @ chainName)]"

text \<open>
  The chain name is read from \<open>context.configurationJob\<close> (the job's entry in the
  configuration file), not from \<open>context.jobConfiguration\<close>.
\<close>

definition GenericServiceJob_generateRules ::
  "ServiceConfiguration ExecutionContext \<Rightarrow> error + ServiceConfiguration ExecutionContext" where
  "GenericServiceJob_generateRules context =
     (case configurationJob context of
        Val entry \<Rightarrow>
          (let chainName = or_default (cj_chainName entry) GenericServiceJob_getServiceChainName in
           case sc_network (jobConfiguration context) of
             Val network \<Rightarrow>
               Inr (append_commands (service_installCommands chainName (or_empty (sn_items network)))
                      (service_unInstallCommands chainName) context)
           | _ \<Rightarrow> Inl TypeError)
      | _ \<Rightarrow> Inl TypeError)"

definition GenericServiceJob_execute ::
  "JoiLib \<Rightarrow> ServiceConfiguration ExecutionContext
    \<Rightarrow> (error + SecurityCommand list) \<times> ServiceConfiguration ExecutionContext" where
  "GenericServiceJob_execute J context0 =
     (let context = context0\<lparr>commands_install := [], commands_unInstall := []\<rparr>;
          steps = [GenericServiceJob_validateConfiguration J, GenericServiceJob_generateRules]
      in if toLowerCase (jobCommand_type context) \<notin> set [''install'', ''uninstall''] then
           (Inl (IllegalArgumentError (''Invalid command '' @ jobCommand_type context)), context)
         else workflow steps context)"

section \<open>The docker DNS job\<close>

text \<open>\<^verbatim>\<open>src/unnamed/part_001\<close>.\<close>

record DnsItem =
  di_sourcePortNumber :: "number js"
  di_sourceLinkName :: "string js"
  di_sourceIpAddress :: "string js"
  di_destinationPortNumber :: "number js"
  di_destinationIpAddress :: "string js"

record DnsNetwork =
  dn_items :: "DnsItem list js"

record DnsConfiguration =
  dc_chainName :: "string js"
  dc_network :: "DnsNetwork js"

definition schema_DnsItem :: "JoiLib \<Rightarrow> DnsItem \<Rightarrow> bool" where
  "schema_DnsItem J i =
     (optional (joi_number J) (di_sourcePortNumber i)
      \<and> required joi_string (di_sourceLinkName i)
      \<and> required (joi_string_format (ip_cidr_forbidden J)) (di_sourceIpAddress i)
      \<and> required (joi_number J) (di_destinationPortNumber i)
      \<and> allow_null (joi_string_format (ip_cidr_forbidden J)) (di_destinationIpAddress i))"

definition schema_DockerDnsServiceJob :: "JoiLib \<Rightarrow> DnsConfiguration \<Rightarrow> bool" where
  "schema_DockerDnsServiceJob J c =
     (optional joi_string (dc_chainName c)
      \<and> required (\<lambda>n. required (array_items (schema_DnsItem J)) (dn_items n)) (dc_network c))"

text \<open>\<open>.default(53)\<close> fills in a source port that is absent.\<close>

definition default_DnsItem :: "DnsItem \<Rightarrow> DnsItem" where
  "default_DnsItem i =
     (case di_sourcePortNumber i of Undefined \<Rightarrow> i\<lparr>di_sourcePortNumber := Val (Number ''53'')\<rparr> | _ \<Rightarrow> i)"

definition default_DnsConfiguration :: "DnsConfiguration \<Rightarrow> DnsConfiguration" where
  "default_DnsConfiguration c =
     (case dc_network c of
        Val n \<Rightarrow>
          (case dn_items n of
             Val items \<Rightarrow> c\<lparr>dc_network := Val (n\<lparr>dn_items := Val (map default_DnsItem items)\<rparr>)\<rparr>
           | _ \<Rightarrow> c)
      | _ \<Rightarrow> c)"

definition DockerDnsServiceJob_validateConfiguration ::
  "JoiLib \<Rightarrow> DnsConfiguration ExecutionContext \<Rightarrow> error + DnsConfiguration ExecutionContext" where
  "DockerDnsServiceJob_validateConfiguration J =
     validate_step J (schema_DockerDnsServiceJob J) default_DnsConfiguration"

definition DockerDnsServiceJob_getServiceChainName :: string where
  "DockerDnsServiceJob_getServiceChainName = ''dockerDnsService''"

definition dns_item_install :: "string \<Rightarrow> DnsItem \<Rightarrow> SecurityCommand list" where
  "dns_item_install chainName item =
     (let sourceIpAddress = str_text (di_sourceIpAddress item);
          sourcePortNumber = num_text (di_sourcePortNumber item);
          sourceLinkName = str_text (di_sourceLinkName item);
          destinationPortNumber = num_text (di_destinationPortNumber item);
          destinationIpAddress = str_text (di_destinationIpAddress item)
      in [asIptables4Command (''-I PREROUTING 1 -t nat -i '' @ sourceLinkName @ '' -p tcp -d '' @ sourceIpAddress @ '' --dport '' @ sourcePortNumber @ '' -j DNAT --to '' @ destinationIpAddress @ '':'' @ destinationPortNumber),
          asIptables4Command (''-I PREROUTING 1 -t nat -i '' @ sourceLinkName @ '' -p udp -d '' @ sourceIpAddress @ '' --dport '' @ sourcePortNumber @ '' -j DNAT --to '' @ destinationIpAddress @ '':'' @ destinationPortNumber),
          asIptables4Command (''-I FORWARD 1 -p tcp -d '' @ destinationIpAddress @ '' --dport '' @ destinationPortNumber @ '' -j ACCEPT''),
          asIptables4Command (''-I FORWARD 1 -p udp -d '' @ destinationIpAddress @ '' --dport '' @ destinationPortNumber @ '' -j ACCEPT''),
          asIptables4Command (''-A IN_dns_'' @ chainName @ '' -p tcp -d '' @ sourceIpAddress @ '' --dport '' @ sourcePortNumber @ '' -j ACCEPT''),
          asIptables4Command (''-A IN_dns_'' @ chainName @ '' -p udp -d '' @ sourceIpAddress @ '' --dport '' @ sourcePortNumber @ '' -j ACCEPT'')])"

definition dns_item_unInstall :: "DnsItem \<Rightarrow> SecurityCommand list" where
  "dns_item_unInstall item =
     (let sourceIpAddress = str_text (di_sourceIpAddress item);
          sourcePortNumber = num_text (di_sourcePortNumber item);
          sourceLinkName = str_text (di_sourceLinkName item);
          destinationPortNumber = num_text (di_destinationPortNumber item);
          destinationIpAddress = str_text (di_destinationIpAddress item)
      in [asIptables4Command (''-D PREROUTING -t nat -i '' @ sourceLinkName @ '' -p tcp -d '' @ sourceIpAddress @ '' --dport '' @ sourcePortNumber @ '' -j DNAT --to '' @ destinationIpAddress @ '':'' @ destinationPortNumber),
          asIptables4Command (''-D PREROUTING -t nat -i '' @ sourceLinkName @ '' -p udp -d '' @ sourceIpAddress @ '' --dport '' @ sourcePortNumber @ '' -j DNAT --to '' @ destinationIpAddress @ '':'' @ destinationPortNumber),
          asIptables4Command (''-D FORWARD -p tcp -d '' @ destinationIpAddress @ '' --dport '' @ destinationPortNumber @ '' -j ACCEPT''),
          asIptables4Command (''-D FORWARD -p udp -d '' @ destinationIpAddress @ '' --dport '' @ destinationPortNumber @ '' -j ACCEPT'')])"

definition dns_installCommands :: "string \<Rightarrow> DnsItem list \<Rightarrow> SecurityCommand list" where
  "dns_installCommands chainName networkItems =
     [asIptables4Command (''-N IN_dns_'' @ chainName),
      asIptables4Command (''-N OUT_dns_'' @ chainName)]
     @ concat (map (dns_item_install chainName) networkItems)
     @ [asIptables4Command (''-A IN_dns_'' @ chainName @ '' -j RETURN''),
        asIptables4Command (''-A OUT_dns_'' @ chainName @ '' -j RETURN''),
        asIptables4Command (''-I IN_services_access_0 1 -j IN_dns_'' @ chainName),
        asIptables4Command (''-I OUT_services_access_0 1 -j OUT_dns_'' @ chainName)]"

definition dns_unInstallCommands :: "string \<Rightarrow> DnsItem list \<Rightarrow> SecurityCommand list" where
  "dns_unInstallCommands chainName networkItems =
     [asIptables4Command (''-D IN_services_access_0 -j IN_dns_'' @ chainName),
      asIptables4Command (''-D OUT_services_access_0 -j OUT_dns_'' @ chainName),
      asIptables4Command (''-F IN_dns_'' @ chainName),
      asIptables4Command (''-X IN_dns_'' @ chainName),
      asIptables4Command (''-F OUT_dns_'' @ chainName),
      asIptables4Command (''-X OUT_dns_'' @ chainName)]
     @ concat (map dns_item_unInstall networkItems)"

definition DockerDnsServiceJob_generateRules ::
  "DnsConfiguration ExecutionContext \<Rightarrow> error + DnsConfiguration ExecutionContext" where
  "DockerDnsServiceJob_generateRules context =
     (let chainName = or_default (dc_chainName (jobConfiguration context))
                        DockerDnsServiceJob_getServiceChainName in
      case dc_network (jobConfiguration context) of
        Val network \<Rightarrow>
          Inr (append_commands (dns_installCommands chainName (or_empty (dn_items network)))
                 (dns_unInstallCommands chainName (or_empty (dn_items network))) context)
      | _ \<Rightarrow> Inl TypeError)"

definition DockerDnsServiceJob_execute ::
  "JoiLib \<Rightarrow> DnsConfiguration ExecutionContext
    \<Rightarrow> (error + SecurityCommand list) \<times> DnsConfiguration ExecutionContext" where
  "DockerDnsServiceJob_execute J context0 =
     (let context = context0\<lparr>commands_install := [], commands_unInstall := []\<rparr>;
          steps = [DockerDnsServiceJob_validateConfiguration J, DockerDnsServiceJob_generateRules]
      in if toLowerCase (jobCommand_type context) \<notin> set [''install'', ''uninstall''] then
           (Inl (IllegalArgumentError (''Invalid command '' @ jobCommand_type context)), context)
         else workflow steps context)"

section \<open>The blacklist synchronisation job\<close>

text \<open>\<^verbatim>\<open>src/lib/jobs/sync-blacklist-ips.js\<close>.\<close>

record Database =
  db_connectionString :: "string js"

record BlacklistConfiguration =
  bc_database :: "Database js"

record BlacklistRow =
  row_value :: "string js"

text \<open>
  The database is outside the repository: a query on a connection string gives the rows
  of \<open>security.blacklist_networks\<close> for IPv4, or the message of the error the client
  rejects with.
\<close>

type_synonym data_source = "string \<Rightarrow> string + BlacklistRow list"

definition schema_SynchronizeBlacklistIps :: "JoiLib \<Rightarrow> BlacklistConfiguration \<Rightarrow> bool" where
  "schema_SynchronizeBlacklistIps J c =
     required (\<lambda>d. required (joi_string_format (uri_postgres J)) (db_connectionString d))
       (bc_database c)"

definition SynchronizeBlacklistIps_validateConfiguration ::
  "JoiLib \<Rightarrow> BlacklistConfiguration ExecutionContext
    \<Rightarrow> error + BlacklistConfiguration ExecutionContext" where
  "SynchronizeBlacklistIps_validateConfiguration J =
     validate_step J (schema_SynchronizeBlacklistIps J) (\<lambda>c. c)"

definition fetchNetworks ::
  "data_source \<Rightarrow> BlacklistConfiguration ExecutionContext
    \<Rightarrow> error + BlacklistConfiguration ExecutionContext" where
  "fetchNetworks query context =
     (case bc_database (jobConfiguration context) of
        Val database \<Rightarrow>
          (case db_connectionString database of
             Val connectionString \<Rightarrow>
               (case query connectionString of
                  Inl message \<Rightarrow> Inl (DataSourceError message)
                | Inr result \<Rightarrow>
                    (let securityCommands =
                           map (\<lambda>item. SecurityCommand ''ipset''
                                  (''-! add block_net '' @ str_text (row_value item))) result
                     in Inr (context\<lparr>commands_install := securityCommands,
                                     commands_unInstall :=
                                       [SecurityCommand ''ipset'' ''flush block_net'']\<rparr>)))
           | _ \<Rightarrow> Inl TypeError)
      | _ \<Rightarrow> Inl TypeError)"

definition SynchronizeBlacklistIps_execute ::
  "JoiLib \<Rightarrow> data_source \<Rightarrow> BlacklistConfiguration ExecutionContext
    \<Rightarrow> (error + SecurityCommand list) \<times> BlacklistConfiguration ExecutionContext" where
  "SynchronizeBlacklistIps_execute J query context0 =
     (let context = context0\<lparr>commands_install := [], commands_unInstall := []\<rparr>;
          steps = [SynchronizeBlacklistIps_validateConfiguration J]
      in if toLowerCase (jobCommand_type context) = ''install'' then
           workflow (steps @ [fetchNetworks query]) context
         else if toLowerCase (jobCommand_type context) = ''uninstall'' then
           workflow (steps @ [fetchNetworks query]) context
         else (Inl (IllegalArgumentError (''Invalid command '' @ jobCommand_type context)), context))"

section \<open>Reading a transcript\<close>

text \<open>
  \<open>emitted_before x y cs\<close>: both commands occur in \<open>cs\<close>, and the first \<open>x\<close> comes
  before every \<open>y\<close>.
\<close>

fun emitted_before :: "'a \<Rightarrow> 'a \<Rightarrow> 'a list \<Rightarrow> bool" where
  "emitted_before x y [] = False"
| "emitted_before x y (c # cs) =
     (if c = y then False else if c = x then y \<in> set cs else emitted_before x y cs)"

definition result_before ::
  "SecurityCommand \<Rightarrow> SecurityCommand \<Rightarrow> error + SecurityCommand list \<Rightarrow> bool" where
  "result_before x y r = (case r of Inr transcript \<Rightarrow> emitted_before x y transcript | Inl _ \<Rightarrow> False)"

text \<open>The text after a given prefix, when the command starts with it.\<close>

fun strip_prefix :: "string \<Rightarrow> string \<Rightarrow> string option" where
  "strip_prefix [] s = Some s"
| "strip_prefix (p # ps) [] = None"
| "strip_prefix (p # ps) (c # cs) = (if p = c then strip_prefix ps cs else None)"



definition ipset_operand :: "string \<Rightarrow> SecurityCommand \<Rightarrow> string option" where
  "ipset_operand option c =
     (if cmd_type c = ''ipset'' then strip_prefix option (cmd_value c) else None)"









definition operands :: "(SecurityCommand \<Rightarrow> 'a option) \<Rightarrow> SecurityCommand list \<Rightarrow> 'a multiset" where
  "operands f cs = mset (List.map_filter f cs)"






text \<open>The commands that add a member to \<open>trusted_net\<close>, in transcript order.\<close>

definition trusted_adds :: "SecurityCommand list \<Rightarrow> SecurityCommand list" where
  "trusted_adds cs = filter (\<lambda>c. ipset_operand ''-! add trusted_net '' c \<noteq> None) cs"

section \<open>Reading a rejection\<close>

text \<open>
  The code has one error class for a bad direction token and for a bad configuration;
  the message tells them apart.
\<close>

definition is_InvalidDirectionError :: "error \<Rightarrow> bool" where
  "is_InvalidDirectionError e =
     (case e of IllegalArgumentError m \<Rightarrow> strip_prefix ''Invalid command '' m \<noteq> None | _ \<Rightarrow> False)"

definition is_ValidationError :: "error \<Rightarrow> bool" where
  "is_ValidationError e =
     (case e of IllegalArgumentError m \<Rightarrow> strip_prefix ''Invalid configuration: '' m \<noteq> None
      | _ \<Rightarrow> False)"

definition rejects_with :: "(error \<Rightarrow> bool) \<Rightarrow> error + 'a \<Rightarrow> bool" where
  "rejects_with kind r = (case r of Inl e \<Rightarrow> kind e | Inr _ \<Rightarrow> False)"

definition valid_direction :: "string \<Rightarrow> bool" where
  "valid_direction token = (toLowerCase token = ''install'' \<or> toLowerCase token = ''uninstall'')"

text \<open>What a run leaves in the context when no step has touched it.\<close>

definition untouched :: "'cfg ExecutionContext \<Rightarrow> 'cfg ExecutionContext \<Rightarrow> bool" where
  "untouched context0 context =
     (context = context0\<lparr>commands_install := [], commands_unInstall := []\<rparr>)"

section \<open>Example inputs\<close>

text \<open>
  A stand-in for the schema library: a CIDR has a slash, a bare address has none, a
  postgres URI starts with its scheme, a number is neither \<open>NaN\<close> nor infinite.
\<close>

definition example_Joi :: JoiLib where
  "example_Joi =
     \<lparr>ip_cidr_required = (\<lambda>s. CHR ''/'' \<in> set s),
      ip_cidr_optional = (\<lambda>s. True),
      ip_cidr_forbidden = (\<lambda>s. CHR ''/'' \<notin> set s),
      uri_postgres = (\<lambda>s. take 11 s = ''postgres://''),
      number_accepted = (\<lambda>n. toString n \<notin> set [''NaN'', ''Infinity'', ''-Infinity'']),
      error_message = ''child fails''\<rparr>"

definition example_interface :: PrimaryInterface where
  "example_interface =
     \<lparr>pi_name = Val ''eth0'',
      pi_networks = Val [\<lparr>ni_value = Val ''192.168.1.0/24'', ni_description = Undefined\<rparr>],
      pi_rules = Val \<lparr>rules_input = Val \<lparr>rs_defaultAction = Val ''DROP''\<rparr>,
                      rules_output = Val \<lparr>rs_defaultAction = Val ''ACCEPT''\<rparr>\<rparr>\<rparr>"

definition example_network :: PrepareNetwork where
  "example_network =
     \<lparr>pn_trustedItems = Val [\<lparr>ni_value = Val ''192.168.0.0/16'', ni_description = Undefined\<rparr>],
      pn_primaryInterfaces = Val [example_interface]\<rparr>"

text \<open>A run of the netfilter-preparation job with two global trusted networks and one of its own.\<close>

definition prepare_example :: "string \<Rightarrow> PrepareConfiguration ExecutionContext" where
  "prepare_example direction =
     \<lparr>jobCommand_type = direction,
      global_trustedItems = Val [\<lparr>ni_value = Val ''10.0.0.0/8'', ni_description = Undefined\<rparr>,
                                 \<lparr>ni_value = Val ''172.16.0.0/12'', ni_description = Undefined\<rparr>],
      configurationJob = Undefined,
      jobConfiguration = \<lparr>pc_network = Val example_network\<rparr>,
      rawJobConfiguration = Undefined,
      commands_install = [],
      commands_unInstall = []\<rparr>"

text \<open>A context as the command-line driver builds it, for the other jobs.\<close>

definition example_context :: "string \<Rightarrow> 'cfg \<Rightarrow> 'cfg ExecutionContext" where
  "example_context direction configuration =
     \<lparr>jobCommand_type = direction,
      global_trustedItems = Undefined,
      configurationJob = Val \<lparr>cj_name = Val ''job'', cj_chainName = Undefined\<rparr>,
      jobConfiguration = configuration,
      rawJobConfiguration = Undefined,
      commands_install = [],
      commands_unInstall = []\<rparr>"

definition example_service_item :: ServiceItem where
  "example_service_item =
     \<lparr>si_portNumber = Val (Number ''443''),
      si_sourceNetworks = Val [''10.0.0.0/8'', ''10.1.0.0/16''],
      si_protocol = Val ''tcp'',
      si_destinationNetwork = Undefined\<rparr>"

definition service_example :: "string \<Rightarrow> ServiceConfiguration ExecutionContext" where
  "service_example direction =
     example_context direction
       \<lparr>sc_chainName = Undefined, sc_network = Val \<lparr>sn_items = Val [example_service_item]\<rparr>\<rparr>"

text \<open>The same service with the port number left out.\<close>

definition service_without_port :: "string \<Rightarrow> ServiceConfiguration ExecutionContext" where
  "service_without_port direction =
     example_context direction
       \<lparr>sc_chainName = Undefined,
        sc_network = Val \<lparr>sn_items = Val [example_service_item\<lparr>si_portNumber := Undefined\<rparr>]\<rparr>\<rparr>"

text \<open>The same service with a chain name in its policy.\<close>

definition service_named :: "string \<Rightarrow> ServiceConfiguration ExecutionContext" where
  "service_named direction =
     example_context direction
       \<lparr>sc_chainName = Val ''web'', sc_network = Val \<lparr>sn_items = Val [example_service_item]\<rparr>\<rparr>"

text \<open>
  A service with two items: the one above, and one that names a destination and no
  source network.
\<close>

definition example_open_item :: ServiceItem where
  "example_open_item =
     \<lparr>si_portNumber = Val (Number ''53''),
      si_sourceNetworks = Undefined,
      si_protocol = Val ''udp'',
      si_destinationNetwork = Val ''192.168.1.5''\<rparr>"

definition service_two_items :: "string \<Rightarrow> ServiceConfiguration ExecutionContext" where
  "service_two_items direction =
     example_context direction
       \<lparr>sc_chainName = Undefined,
        sc_network = Val \<lparr>sn_items = Val [example_service_item, example_open_item]\<rparr>\<rparr>"

definition example_dns_item :: DnsItem where
  "example_dns_item =
     \<lparr>di_sourcePortNumber = Undefined,
      di_sourceLinkName = Val ''eth0'',
      di_sourceIpAddress = Val ''192.168.1.10'',
      di_destinationPortNumber = Val (Number ''5353''),
      di_destinationIpAddress = Val ''172.17.0.2''\<rparr>"

definition dns_example :: "string \<Rightarrow> DnsConfiguration ExecutionContext" where
  "dns_example direction =
     example_context direction
       \<lparr>dc_chainName = Val ''resolver'', dc_network = Val \<lparr>dn_items = Val [example_dns_item]\<rparr>\<rparr>"

definition blacklist_example :: "string \<Rightarrow> BlacklistConfiguration ExecutionContext" where
  "blacklist_example direction =
     example_context direction
       \<lparr>bc_database = Val \<lparr>db_connectionString = Val ''postgres://localhost/security''\<rparr>\<rparr>"

definition example_source :: data_source where
  "example_source connectionString =
     Inr [\<lparr>row_value = Val ''198.51.100.0/24''\<rparr>, \<lparr>row_value = Val ''203.0.113.0/24''\<rparr>]"

section \<open>Properties\<close>

lemma each_result_InrD:
  "each_result f xs = Inr ys \<Longrightarrow> list_all2 (\<lambda>x y. f x = Inr y) xs ys"
proof (induction xs arbitrary: ys)
  case Nil
  then show ?case by simp
next
  case (Cons x xs)
  from Cons.prems obtain y zs where "f x = Inr y" "each_result f xs = Inr zs" "ys = y # zs"
    by (auto split: sum.splits)
  with Cons.IH show ?case by simp
qed

lemma each_result_total:
  "(\<forall>x\<in>set xs. \<exists>y. f x = Inr y) \<Longrightarrow> \<exists>ys. each_result f xs = Inr ys"
proof (induction xs)
  case Nil
  then show ?case by simp
next
  case (Cons x xs)
  then obtain y ys where "f x = Inr y" "each_result f xs = Inr ys" by auto
  then show ?case by simp
qed

lemma each_result_map:
  "(\<And>x. x \<in> set xs \<Longrightarrow> f (h x) = Inr (g x)) \<Longrightarrow> each_result f (map h xs) = Inr (map g xs)"
  by (induction xs) auto

lemma schema_PrepareNetfilterJob_D:
  assumes "schema_PrepareNetfilterJob J c"
  obtains n ifs where "pc_network c = Val n" "pn_primaryInterfaces n = Val ifs" "ifs \<noteq> []"
    "pn_trustedItems n \<noteq> Null"
    "\<forall>i\<in>set ifs. \<exists>action. input_defaultAction i = Inr action"
proof -
  from assms obtain n where n: "pc_network c = Val n"
    and t: "optional (array_items (schema_NetworkItem J)) (pn_trustedItems n)"
    and p: "required (array_items_required (schema_PrimaryInterface J)) (pn_primaryInterfaces n)"
    by (cases "pc_network c") (auto simp: schema_PrepareNetfilterJob_def)
  from p obtain ifs where ifs: "pn_primaryInterfaces n = Val ifs" "ifs \<noteq> []"
    and a: "list_all (schema_PrimaryInterface J) ifs"
    by (cases "pn_primaryInterfaces n") (auto simp: array_items_required_def)
  from t have tn: "pn_trustedItems n \<noteq> Null" by auto
  have "\<exists>action. input_defaultAction i = Inr action" if "i \<in> set ifs" for i
  proof -
    from a that have s: "schema_PrimaryInterface J i" by (simp add: list_all_iff)
    then obtain r where r: "pi_rules i = Val r" "required schema_RuleSet (rules_input r)"
      by (cases "pi_rules i") (auto simp: schema_PrimaryInterface_def)
    then obtain s where "rules_input r = Val s" by (cases "rules_input r") auto
    with r show ?thesis by (simp add: input_defaultAction_def)
  qed
  with n ifs tn show ?thesis using that by blast
qed


lemma validate_step_ok:
  "schema (jobConfiguration ctx) \<Longrightarrow>
   validate_step J schema d ctx
     = Inr (ctx\<lparr>rawJobConfiguration := Val (jobConfiguration ctx),
                 jobConfiguration := d (jobConfiguration ctx)\<rparr>)"
  by (simp add: validate_step_def Joi_validate_def)

lemma validate_step_fail:
  "\<not> schema (jobConfiguration ctx) \<Longrightarrow>
   validate_step J schema d ctx
     = Inl (IllegalArgumentError (''Invalid configuration: '' @ error_message J))"
  by (simp add: validate_step_def Joi_validate_def)

lemma prepare_install_run:
  assumes v: "schema_PrepareNetfilterJob J (jobConfiguration ctx)"
    and t: "toLowerCase (jobCommand_type ctx) = ''install''"
    and n: "pc_network (jobConfiguration ctx) = Val n"
    and a: "each_result trusted_add_command
              (concat_argument (get_default (global_trustedItems ctx))
               @ concat_argument (get_default (pn_trustedItems n))) = Inr adds"
    and d: "each_result interface_default_commands (or_empty (pn_primaryInterfaces n)) = Inr defaults"
  defines "I \<equiv> vital_installCommands (or_empty (pn_primaryInterfaces n)) @ block_installCommands
                @ access_installCommands @ trusted_installCommands adds
                @ root_installCommands (map fst defaults)"
    and "U \<equiv> vital_unInstallCommands @ block_unInstallCommands @ access_unInstallCommands
                @ trusted_unInstallCommands @ root_unInstallCommands (map snd defaults)"
  shows "fst (PrepareNetfilterJob_execute J ctx)
           = Inr (if jobCommand_type ctx = ''install'' then I else U)"
    and "commands_install (snd (PrepareNetfilterJob_execute J ctx)) = I"
    and "commands_unInstall (snd (PrepareNetfilterJob_execute J ctx)) = U"
  using v t n a d
  by (simp_all add: PrepareNetfilterJob_execute_def workflow_def
      PrepareNetfilterJob_validateConfiguration_def validate_step_ok
      generateVitalAccessChain_def generateBlockNetworkChain_def generateServiceAccessChain_def
      generateTrustedNetworkChain_def generateRootAccessChains_def get_job_trustedItems_def
      append_commands_def I_def U_def)

lemma prepare_uninstall_run:
  assumes v: "schema_PrepareNetfilterJob J (jobConfiguration ctx)"
    and t: "toLowerCase (jobCommand_type ctx) = ''uninstall''"
    and n: "pc_network (jobConfiguration ctx) = Val n"
    and a: "each_result trusted_add_command
              (concat_argument (get_default (global_trustedItems ctx))
               @ concat_argument (get_default (pn_trustedItems n))) = Inr adds"
    and d: "each_result interface_default_commands (or_empty (pn_primaryInterfaces n)) = Inr defaults"
  defines "I \<equiv> root_installCommands (map fst defaults) @ trusted_installCommands adds
                @ access_installCommands @ block_installCommands
                @ vital_installCommands (or_empty (pn_primaryInterfaces n))"
    and "U \<equiv> root_unInstallCommands (map snd defaults) @ trusted_unInstallCommands
                @ access_unInstallCommands @ block_unInstallCommands @ vital_unInstallCommands"
  shows "fst (PrepareNetfilterJob_execute J ctx)
           = Inr (if jobCommand_type ctx = ''install'' then I else U)"
    and "commands_install (snd (PrepareNetfilterJob_execute J ctx)) = I"
    and "commands_unInstall (snd (PrepareNetfilterJob_execute J ctx)) = U"
  using v t n a d
  by (simp_all add: PrepareNetfilterJob_execute_def workflow_def
      PrepareNetfilterJob_validateConfiguration_def validate_step_ok
      generateVitalAccessChain_def generateBlockNetworkChain_def generateServiceAccessChain_def
      generateTrustedNetworkChain_def generateRootAccessChains_def get_job_trustedItems_def
      append_commands_def I_def U_def)


lemma cmd_type_vital_interface:
  "c \<in> set (vital_interface_commands chainName i) \<Longrightarrow> cmd_type c = ''iptables-4''"
  by (auto simp: vital_interface_commands_def vital_network_commands_def asIptables4Command_def Let_def)

lemma cmd_type_vital:
  "c \<in> set (vital_installCommands ifs) \<Longrightarrow> cmd_type c = ''iptables-4''"
  by (auto simp: vital_installCommands_def asIptables4Command_def Let_def dest: cmd_type_vital_interface)

lemma trusted_adds_append [simp]: "trusted_adds (xs @ ys) = trusted_adds xs @ trusted_adds ys"
  by (simp add: trusted_adds_def)

lemma trusted_adds_iptables:
  "(\<And>c. c \<in> set cs \<Longrightarrow> cmd_type c = ''iptables-4'') \<Longrightarrow> trusted_adds cs = []"
  by (induction cs) (auto simp: trusted_adds_def ipset_operand_def)

lemma trusted_adds_fixed:
  "trusted_adds block_installCommands = []"
  "trusted_adds access_installCommands = []"
  "trusted_adds (root_installCommands (map fst defaults)) = trusted_adds (map fst defaults)"
  by (simp_all add: trusted_adds_def block_installCommands_def access_installCommands_def
      root_installCommands_def ipset_operand_def asIptables4Command_def asIpSetCommand_def Let_def)

lemma trusted_adds_defaults:
  assumes "each_result interface_default_commands ifs = Inr defaults"
  shows "trusted_adds (map fst defaults) = []"
proof (rule trusted_adds_iptables)
  fix c assume "c \<in> set (map fst defaults)"
  then obtain u where "(c, u) \<in> set defaults" by auto
  with each_result_InrD [OF assms] obtain i where "interface_default_commands i = Inr (c, u)"
    by (auto simp: list_all2_conv_all_nth in_set_conv_nth)
  then show "cmd_type c = ''iptables-4''"
    by (auto simp: interface_default_commands_def default_install_command_def
        asIptables4Command_def split: sum.splits)
qed

lemma trusted_adds_map:
  "trusted_adds (map trusted_add items) = map trusted_add items"
  by (induction items)
    (simp_all add: trusted_adds_def trusted_add_def ipset_operand_def asIpSetCommand_def)

lemma trusted_adds_trusted:
  "trusted_adds (trusted_installCommands adds) = trusted_adds adds"
  by (simp add: trusted_installCommands_def Let_def)
    (simp add: trusted_adds_def ipset_operand_def asIptables4Command_def asIpSetCommand_def)

lemma trusted_each:
  assumes "g \<noteq> Null" "l \<noteq> Null"
  shows "each_result trusted_add_command (concat_argument (get_default g) @ concat_argument (get_default l))
           = Inr (map trusted_add (or_empty g @ or_empty l))"
proof -
  have "concat_argument (get_default g) @ concat_argument (get_default l) = map Val (or_empty g @ or_empty l)"
    using assms by (cases g; cases l) simp_all
  moreover have "each_result trusted_add_command (map Val (or_empty g @ or_empty l))
      = Inr (map trusted_add (or_empty g @ or_empty l))"
    by (rule each_result_map) (simp add: trusted_add_command_def trusted_add_def)
  ultimately show ?thesis by simp
qed

text \<open>
  C5. In the install transcript of the netfilter-preparation job the commands that add a
  member to \<open>trusted_net\<close> are, in this order, one for each global trusted network
  and then one for each trusted network of the job, each group in its own order.
\<close>

theorem trusted_networks_global_before_local:
  assumes "schema_PrepareNetfilterJob J (jobConfiguration ctx)"
    and "jobCommand_type ctx = ''install''"
    and "global_trustedItems ctx \<noteq> Null"
    and "pc_network (jobConfiguration ctx) = Val n"
  shows "\<exists>transcript. fst (PrepareNetfilterJob_execute J ctx) = Inr transcript
           \<and> trusted_adds transcript
               = map (\<lambda>i. asIpSetCommand (''-! add trusted_net '' @ str_text (ni_value i)))
                   (or_empty (global_trustedItems ctx) @ or_empty (pn_trustedItems n))"
proof -
  from assms(1) obtain n' ifs where n': "pc_network (jobConfiguration ctx) = Val n'"
    and ifs: "pn_primaryInterfaces n' = Val ifs"
    and l: "pn_trustedItems n' \<noteq> Null"
    and acts: "\<forall>i\<in>set ifs. \<exists>action. input_defaultAction i = Inr action"
    by (rule schema_PrepareNetfilterJob_D)
  from n' assms(4) have [simp]: "n' = n" by simp
  have "\<forall>i\<in>set ifs. \<exists>y. interface_default_commands i = Inr y"
    using acts by (auto simp: interface_default_commands_def)
  then obtain defaults where d: "each_result interface_default_commands ifs = Inr defaults"
    using each_result_total by blast
  let ?items = "or_empty (global_trustedItems ctx) @ or_empty (pn_trustedItems n)"
  have a: "each_result trusted_add_command
             (concat_argument (get_default (global_trustedItems ctx))
              @ concat_argument (get_default (pn_trustedItems n))) = Inr (map trusted_add ?items)"
    using assms(3) l by (simp add: trusted_each)
  have low: "toLowerCase (jobCommand_type ctx) = ''install''"
    using assms(2) by (simp add: toLowerCase_def lower_char_def)
  have "fst (PrepareNetfilterJob_execute J ctx)
          = Inr (vital_installCommands ifs @ block_installCommands @ access_installCommands
                 @ trusted_installCommands (map trusted_add ?items)
                 @ root_installCommands (map fst defaults))"
    using prepare_install_run(1) [OF assms(1) low assms(4) a] d ifs assms(2) by simp
  moreover have "trusted_adds (vital_installCommands ifs @ block_installCommands @ access_installCommands
                 @ trusted_installCommands (map trusted_add ?items)
                 @ root_installCommands (map fst defaults)) = map trusted_add ?items"
    using trusted_adds_defaults [OF d]
    by (simp add: trusted_adds_fixed trusted_adds_trusted trusted_adds_map trusted_adds_iptables
        cmd_type_vital del: map_append)
  ultimately show ?thesis
    by (auto simp: trusted_add_def [abs_def])
qed


theorem trusted_networks_global_before_local_witness:
  "schema_PrepareNetfilterJob example_Joi (jobConfiguration (prepare_example ''install''))
   \<and> jobCommand_type (prepare_example ''install'') = ''install''
   \<and> global_trustedItems (prepare_example ''install'') \<noteq> Null
   \<and> pc_network (jobConfiguration (prepare_example ''install'')) = Val example_network
   \<and> (\<exists>transcript. fst (PrepareNetfilterJob_execute example_Joi (prepare_example ''install'')) = Inr transcript
         \<and> trusted_adds transcript
             = [asIpSetCommand ''-! add trusted_net 10.0.0.0/8'',
                asIpSetCommand ''-! add trusted_net 172.16.0.0/12'',
                asIpSetCommand ''-! add trusted_net 192.168.0.0/16''])"
proof -
  have v: "schema_PrepareNetfilterJob example_Joi (jobConfiguration (prepare_example ''install''))"
    by (simp add: schema_PrepareNetfilterJob_def schema_PrimaryInterface_def schema_NetworkItem_def
        schema_RuleSet_def array_items_def array_items_required_def joi_string_def
        joi_string_format_def prepare_example_def example_network_def example_interface_def
        example_Joi_def)
  have t: "jobCommand_type (prepare_example ''install'') = ''install''"
    and g: "global_trustedItems (prepare_example ''install'') \<noteq> Null"
    and n: "pc_network (jobConfiguration (prepare_example ''install'')) = Val example_network"
    by (simp_all add: prepare_example_def)
  show ?thesis
    using trusted_networks_global_before_local [OF v t g n] v t g n
    by (simp add: prepare_example_def example_network_def)
qed

lemma emitted_before_skip:
  "x \<notin> set ps \<Longrightarrow> y \<notin> set ps \<Longrightarrow> emitted_before x y (ps @ cs) = emitted_before x y cs"
  by (induction ps) auto

lemma each_result_member:
  assumes "each_result f xs = Inr ys" "x \<in> set xs" "f x = Inr y"
  shows "y \<in> set ys"
proof -
  from assms(2) obtain k where k: "k < length xs" "xs ! k = x"
    by (auto simp: in_set_conv_nth)
  from each_result_InrD [OF assms(1)] k have "f x = Inr (ys ! k)" "k < length ys"
    by (auto simp: list_all2_conv_all_nth)
  with assms(3) show ?thesis by auto
qed

lemma head_vital_interface:
  "c \<in> set (vital_interface_commands chainName i) \<Longrightarrow>
   take 6 (cmd_value c) = ''-A IN_'' \<or> take 6 (cmd_value c) = ''-A OUT''"
  by (auto simp: vital_interface_commands_def vital_network_commands_def asIptables4Command_def Let_def)

lemma head_vital:
  "c \<in> set (vital_installCommands ifs) \<Longrightarrow>
   take 6 (cmd_value c) \<in> {''-N IN_'', ''-N OUT'', ''-A IN_'', ''-A OUT''}"
  by (auto simp: vital_installCommands_def asIptables4Command_def Let_def dest: head_vital_interface)

lemma head_fixed:
  "c \<in> set (block_installCommands @ access_installCommands) \<Longrightarrow>
   cmd_type c = ''ipset'' \<or> take 6 (cmd_value c) \<in> {''-N IN_'', ''-N OUT'', ''-A IN_'', ''-A OUT''}"
  by (auto simp: block_installCommands_def access_installCommands_def asIptables4Command_def
      asIpSetCommand_def Let_def)

lemma head_trusted:
  "c \<in> set (trusted_installCommands (map trusted_add items)) \<Longrightarrow>
   cmd_type c = ''ipset'' \<or> take 6 (cmd_value c) \<in> {''-N IN_'', ''-N OUT'', ''-A IN_'', ''-A OUT''}"
  by (auto simp: trusted_installCommands_def trusted_add_def asIptables4Command_def
      asIpSetCommand_def Let_def)

lemma head_before_root:
  assumes "c \<in> set (vital_installCommands ifs @ block_installCommands @ access_installCommands
                     @ trusted_installCommands (map trusted_add items))"
  shows "cmd_type c = ''ipset'' \<or> take 6 (cmd_value c) \<in> {''-N IN_'', ''-N OUT'', ''-A IN_'', ''-A OUT''}"
  using assms head_vital [of c ifs] head_fixed [of c] head_trusted [of c items]
  by (simp only: set_append Un_iff) blast

lemma root_not_before:
  assumes "cmd_type x = ''iptables-4''"
    and "take 6 (cmd_value x) \<notin> {''-N IN_'', ''-N OUT'', ''-A IN_'', ''-A OUT''}"
  shows "x \<notin> set (vital_installCommands ifs @ block_installCommands @ access_installCommands
                     @ trusted_installCommands (map trusted_add items))"
  using head_before_root [of x ifs items] assms by auto


lemma prepare_valid:
  assumes "schema_PrepareNetfilterJob J (jobConfiguration ctx)"
    and "global_trustedItems ctx \<noteq> Null"
    and "pc_network (jobConfiguration ctx) = Val n"
  obtains ifs defaults where "pn_primaryInterfaces n = Val ifs" "ifs \<noteq> []"
    "each_result interface_default_commands ifs = Inr defaults"
    "each_result trusted_add_command
       (concat_argument (get_default (global_trustedItems ctx))
        @ concat_argument (get_default (pn_trustedItems n)))
     = Inr (map trusted_add (or_empty (global_trustedItems ctx) @ or_empty (pn_trustedItems n)))"
proof -
  from assms(1) obtain n' ifs where n': "pc_network (jobConfiguration ctx) = Val n'"
    and ifs: "pn_primaryInterfaces n' = Val ifs" "ifs \<noteq> []"
    and l: "pn_trustedItems n' \<noteq> Null"
    and acts: "\<forall>i\<in>set ifs. \<exists>action. input_defaultAction i = Inr action"
    by (rule schema_PrepareNetfilterJob_D)
  from n' assms(3) have eq: "n' = n" by simp
  have "\<forall>i\<in>set ifs. \<exists>y. interface_default_commands i = Inr y"
    using acts by (auto simp: interface_default_commands_def)
  then obtain defaults where d: "each_result interface_default_commands ifs = Inr defaults"
    using each_result_total by blast
  show ?thesis
    using that [OF _ _ d] ifs l assms(2) trusted_each unfolding eq by blast
qed

text \<open>
  C1, amended. In the install transcript of the netfilter-preparation job the trusted chain
  is activated before the vital chain, before the block chain, before the services chain,
  before the default action of every primary interface. In the transcript for
  \<open>uninstall\<close> the commands that delete these rules come in the same relative order,
  not the reversed one.
\<close>

theorem root_activation_order:
  assumes "schema_PrepareNetfilterJob J (jobConfiguration ctx)"
    and "global_trustedItems ctx \<noteq> Null"
    and "pc_network (jobConfiguration ctx) = Val n"
    and "pn_primaryInterfaces n = Val ifs"
  shows
    "(jobCommand_type ctx = ''install'' \<longrightarrow>
        result_before (asIptables4Command ''-I INPUT 1 -j IN_trusted_access_0'')
          (asIptables4Command ''-I INPUT 2 -j IN_vital_access_0'')
          (fst (PrepareNetfilterJob_execute J ctx))
      \<and> result_before (asIptables4Command ''-I INPUT 2 -j IN_vital_access_0'')
          (asIptables4Command ''-I INPUT 3 -m set --match-set block_net src -j IN_block_access_0'')
          (fst (PrepareNetfilterJob_execute J ctx))
      \<and> result_before (asIptables4Command ''-I INPUT 3 -m set --match-set block_net src -j IN_block_access_0'')
          (asIptables4Command ''-I INPUT 4 -j IN_services_access_0'')
          (fst (PrepareNetfilterJob_execute J ctx))
      \<and> (\<forall>i\<in>set ifs. \<forall>action. input_defaultAction i = Inr action \<longrightarrow>
            result_before (asIptables4Command ''-I INPUT 4 -j IN_services_access_0'')
              (default_install_command (pi_name i) action)
              (fst (PrepareNetfilterJob_execute J ctx))))
     \<and> (jobCommand_type ctx = ''uninstall'' \<longrightarrow>
        result_before (asIptables4Command ''-D INPUT -j IN_trusted_access_0'')
          (asIptables4Command ''-D INPUT -j IN_vital_access_0'')
          (fst (PrepareNetfilterJob_execute J ctx))
      \<and> result_before (asIptables4Command ''-D INPUT -j IN_vital_access_0'')
          (asIptables4Command ''-D INPUT -m set --match-set block_net src -j IN_block_access_0'')
          (fst (PrepareNetfilterJob_execute J ctx))
      \<and> result_before (asIptables4Command ''-D INPUT -m set --match-set block_net src -j IN_block_access_0'')
          (asIptables4Command ''-D INPUT -j IN_services_access_0'')
          (fst (PrepareNetfilterJob_execute J ctx))
      \<and> (\<forall>i\<in>set ifs. \<forall>action. input_defaultAction i = Inr action \<longrightarrow>
            result_before (asIptables4Command ''-D INPUT -j IN_services_access_0'')
              (default_unInstall_command (pi_name i) action)
              (fst (PrepareNetfilterJob_execute J ctx))))"
proof -
  from assms(1-3) obtain ifs' defaults where ifs': "pn_primaryInterfaces n = Val ifs'"
    and d: "each_result interface_default_commands ifs' = Inr defaults"
    and a: "each_result trusted_add_command
       (concat_argument (get_default (global_trustedItems ctx))
        @ concat_argument (get_default (pn_trustedItems n)))
     = Inr (map trusted_add (or_empty (global_trustedItems ctx) @ or_empty (pn_trustedItems n)))"
    by (rule prepare_valid)
  from ifs' assms(4) have [simp]: "ifs' = ifs" by simp
  let ?items = "or_empty (global_trustedItems ctx) @ or_empty (pn_trustedItems n)"
  let ?P = "vital_installCommands ifs @ block_installCommands @ access_installCommands
            @ trusted_installCommands (map trusted_add ?items)"
  have d': "each_result interface_default_commands (or_empty (pn_primaryInterfaces n)) = Inr defaults"
    using d assms(4) by simp
  have member: "default_install_command (pi_name i) action \<in> set (map fst defaults)"
    "default_unInstall_command (pi_name i) action \<in> set (map snd defaults)"
    if "i \<in> set ifs" "input_defaultAction i = Inr action" for i action
  proof -
    have "interface_default_commands i
            = Inr (default_install_command (pi_name i) action,
                   default_unInstall_command (pi_name i) action)"
      using that(2) by (simp add: interface_default_commands_def)
    from each_result_member [OF d _ this] that(1)
    have "(default_install_command (pi_name i) action,
           default_unInstall_command (pi_name i) action) \<in> set defaults" by simp
    then show "default_install_command (pi_name i) action \<in> set (map fst defaults)"
      "default_unInstall_command (pi_name i) action \<in> set (map snd defaults)"
      by force+
  qed
  have install: ?thesis if t: "jobCommand_type ctx = ''install''"
  proof -
    have low: "toLowerCase (jobCommand_type ctx) = ''install''"
      using t by (simp add: toLowerCase_def lower_char_def)
    have run: "fst (PrepareNetfilterJob_execute J ctx)
                 = Inr (?P @ root_installCommands (map fst defaults))"
      using prepare_install_run(1) [OF assms(1) low assms(3) a d'] t assms(4) by simp
    have skip: "emitted_before x y (?P @ cs) = emitted_before x y cs"
      if "cmd_type x = ''iptables-4''" "cmd_type y = ''iptables-4''"
        "take 6 (cmd_value x) \<notin> {''-N IN_'', ''-N OUT'', ''-A IN_'', ''-A OUT''}"
        "take 6 (cmd_value y) \<notin> {''-N IN_'', ''-N OUT'', ''-A IN_'', ''-A OUT''}" for x y cs
      using that by (intro emitted_before_skip root_not_before)
    have 1: "emitted_before (asIptables4Command ''-I INPUT 1 -j IN_trusted_access_0'')
          (asIptables4Command ''-I INPUT 2 -j IN_vital_access_0'')
          (?P @ root_installCommands (map fst defaults))"
      by (subst skip) (simp_all add: asIptables4Command_def root_installCommands_def)
    have 2: "emitted_before (asIptables4Command ''-I INPUT 2 -j IN_vital_access_0'')
          (asIptables4Command ''-I INPUT 3 -m set --match-set block_net src -j IN_block_access_0'')
          (?P @ root_installCommands (map fst defaults))"
      by (subst skip) (simp_all add: asIptables4Command_def root_installCommands_def)
    have 3: "emitted_before (asIptables4Command ''-I INPUT 3 -m set --match-set block_net src -j IN_block_access_0'')
          (asIptables4Command ''-I INPUT 4 -j IN_services_access_0'')
          (?P @ root_installCommands (map fst defaults))"
      by (subst skip) (simp_all add: asIptables4Command_def root_installCommands_def)
    have 4: "emitted_before (asIptables4Command ''-I INPUT 4 -j IN_services_access_0'')
              (default_install_command (pi_name i) action)
              (?P @ root_installCommands (map fst defaults))"
      if "i \<in> set ifs" "input_defaultAction i = Inr action" for i action
      using member(1) [OF that]
      by (subst skip)
        (simp_all add: asIptables4Command_def root_installCommands_def default_install_command_def)
    show ?thesis
      using t 1 2 3 4 unfolding run result_before_def by simp
  qed
  have uninstall: ?thesis if t: "jobCommand_type ctx = ''uninstall''"
  proof -
    have low: "toLowerCase (jobCommand_type ctx) = ''uninstall''"
      using t by (simp add: toLowerCase_def lower_char_def)
    let ?R = "trusted_unInstallCommands @ access_unInstallCommands @ block_unInstallCommands
              @ vital_unInstallCommands"
    have run: "fst (PrepareNetfilterJob_execute J ctx)
                 = Inr (root_unInstallCommands (map snd defaults) @ ?R)"
      using prepare_uninstall_run(1) [OF assms(1) low assms(3) a d'] t by simp
    have 1: "emitted_before (asIptables4Command ''-D INPUT -j IN_trusted_access_0'')
          (asIptables4Command ''-D INPUT -j IN_vital_access_0'')
          (root_unInstallCommands (map snd defaults) @ ?R)"
      by (simp add: asIptables4Command_def root_unInstallCommands_def)
    have 2: "emitted_before (asIptables4Command ''-D INPUT -j IN_vital_access_0'')
          (asIptables4Command ''-D INPUT -m set --match-set block_net src -j IN_block_access_0'')
          (root_unInstallCommands (map snd defaults) @ ?R)"
      by (simp add: asIptables4Command_def root_unInstallCommands_def)
    have 3: "emitted_before (asIptables4Command ''-D INPUT -m set --match-set block_net src -j IN_block_access_0'')
          (asIptables4Command ''-D INPUT -j IN_services_access_0'')
          (root_unInstallCommands (map snd defaults) @ ?R)"
      by (simp add: asIptables4Command_def root_unInstallCommands_def)
    have 4: "emitted_before (asIptables4Command ''-D INPUT -j IN_services_access_0'')
              (default_unInstall_command (pi_name i) action)
              (root_unInstallCommands (map snd defaults) @ ?R)"
      if "i \<in> set ifs" "input_defaultAction i = Inr action" for i action
      using member(2) [OF that]
      by (simp add: asIptables4Command_def root_unInstallCommands_def default_unInstall_command_def)
    show ?thesis
      using t 1 2 3 4 unfolding run result_before_def by simp
  qed
  show ?thesis
    using install uninstall by (cases "jobCommand_type ctx = ''install''") auto
qed


lemma prepare_example_valid:
  "schema_PrepareNetfilterJob example_Joi (jobConfiguration (prepare_example direction))"
  by (simp add: schema_PrepareNetfilterJob_def schema_PrimaryInterface_def schema_NetworkItem_def
      schema_RuleSet_def array_items_def array_items_required_def joi_string_def
      joi_string_format_def prepare_example_def example_network_def example_interface_def
      example_Joi_def)

lemma prepare_example_fields:
  "jobCommand_type (prepare_example direction) = direction"
  "global_trustedItems (prepare_example direction) \<noteq> Null"
  "pc_network (jobConfiguration (prepare_example direction)) = Val example_network"
  "pn_primaryInterfaces example_network = Val [example_interface]"
  "input_defaultAction example_interface = Inr (Val ''DROP'')"
  "pi_name example_interface = Val ''eth0''"
  by (simp_all add: prepare_example_def example_network_def example_interface_def
      input_defaultAction_def)

theorem root_activation_order_witness:
  "result_before (asIptables4Command ''-I INPUT 1 -j IN_trusted_access_0'')
     (asIptables4Command ''-I INPUT 2 -j IN_vital_access_0'')
     (fst (PrepareNetfilterJob_execute example_Joi (prepare_example ''install'')))
   \<and> result_before (asIptables4Command ''-I INPUT 4 -j IN_services_access_0'')
     (default_install_command (Val ''eth0'') (Val ''DROP''))
     (fst (PrepareNetfilterJob_execute example_Joi (prepare_example ''install'')))
   \<and> result_before (asIptables4Command ''-D INPUT -j IN_trusted_access_0'')
     (asIptables4Command ''-D INPUT -j IN_vital_access_0'')
     (fst (PrepareNetfilterJob_execute example_Joi (prepare_example ''uninstall'')))
   \<and> result_before (asIptables4Command ''-D INPUT -j IN_services_access_0'')
     (default_unInstall_command (Val ''eth0'') (Val ''DROP''))
     (fst (PrepareNetfilterJob_execute example_Joi (prepare_example ''uninstall'')))"
  using root_activation_order [OF prepare_example_valid prepare_example_fields(2,3,4), of "''install''"]
    root_activation_order [OF prepare_example_valid prepare_example_fields(2,3,4), of "''uninstall''"]
  by (simp add: prepare_example_fields)

lemma prepare_example_uninstall:
  "fst (PrepareNetfilterJob_execute example_Joi (prepare_example ''uninstall''))
     = Inr (root_unInstallCommands [default_unInstall_command (Val ''eth0'') (Val ''DROP'')]
            @ trusted_unInstallCommands @ access_unInstallCommands @ block_unInstallCommands
            @ vital_unInstallCommands)"
proof -
  have low: "toLowerCase (jobCommand_type (prepare_example ''uninstall'')) = ''uninstall''"
    by (simp add: prepare_example_fields toLowerCase_def lower_char_def)
  have d: "each_result interface_default_commands (or_empty (pn_primaryInterfaces example_network))
             = Inr [(default_install_command (Val ''eth0'') (Val ''DROP''),
                     default_unInstall_command (Val ''eth0'') (Val ''DROP''))]"
    by (simp add: prepare_example_fields interface_default_commands_def)
  obtain adds where a: "each_result trusted_add_command
          (concat_argument (get_default (global_trustedItems (prepare_example ''uninstall'')))
           @ concat_argument (get_default (pn_trustedItems example_network))) = Inr adds"
    by (simp add: prepare_example_def example_network_def trusted_add_command_def)
  show ?thesis
    using prepare_uninstall_run(1) [OF prepare_example_valid low prepare_example_fields(3) a d]
    by (simp add: prepare_example_fields)
qed

text \<open>
  C1 as stated fails: with one primary interface \<open>eth0\<close> whose default action is
  \<open>DROP\<close>, the policy is valid and none of the four neighbouring pairs of the
  uninstall transcript is in the reversed order.
\<close>

theorem root_activation_reversed_counterexample:
  "schema_PrepareNetfilterJob example_Joi (jobConfiguration (prepare_example ''uninstall''))
   \<and> \<not> result_before (default_unInstall_command (Val ''eth0'') (Val ''DROP''))
         (asIptables4Command ''-D INPUT -j IN_services_access_0'')
         (fst (PrepareNetfilterJob_execute example_Joi (prepare_example ''uninstall'')))
   \<and> \<not> result_before (asIptables4Command ''-D INPUT -j IN_services_access_0'')
         (asIptables4Command ''-D INPUT -m set --match-set block_net src -j IN_block_access_0'')
         (fst (PrepareNetfilterJob_execute example_Joi (prepare_example ''uninstall'')))
   \<and> \<not> result_before (asIptables4Command ''-D INPUT -m set --match-set block_net src -j IN_block_access_0'')
         (asIptables4Command ''-D INPUT -j IN_vital_access_0'')
         (fst (PrepareNetfilterJob_execute example_Joi (prepare_example ''uninstall'')))
   \<and> \<not> result_before (asIptables4Command ''-D INPUT -j IN_vital_access_0'')
         (asIptables4Command ''-D INPUT -j IN_trusted_access_0'')
         (fst (PrepareNetfilterJob_execute example_Joi (prepare_example ''uninstall'')))"
  unfolding prepare_example_uninstall
  by (simp add: prepare_example_valid result_before_def root_unInstallCommands_def
      asIptables4Command_def default_unInstall_command_def)

lemma lowercase_tokens:
  "toLowerCase ''install'' = ''install''"
  "toLowerCase ''uninstall'' = ''uninstall''"
  by (simp_all add: toLowerCase_def lower_char_def)

text \<open>What each job's \<open>execute\<close> does with a token that is neither.\<close>

lemma prepare_invalid_direction:
  "\<not> valid_direction (jobCommand_type ctx) \<Longrightarrow>
   PrepareNetfilterJob_execute J ctx
     = (Inl (IllegalArgumentError (''Invalid command '' @ jobCommand_type ctx)),
        ctx\<lparr>commands_install := [], commands_unInstall := []\<rparr>)"
  by (simp add: PrepareNetfilterJob_execute_def valid_direction_def)

lemma service_invalid_direction:
  "\<not> valid_direction (jobCommand_type ctx) \<Longrightarrow>
   GenericServiceJob_execute J ctx
     = (Inl (IllegalArgumentError (''Invalid command '' @ jobCommand_type ctx)),
        ctx\<lparr>commands_install := [], commands_unInstall := []\<rparr>)"
  by (simp add: GenericServiceJob_execute_def valid_direction_def)

lemma dns_invalid_direction:
  "\<not> valid_direction (jobCommand_type ctx) \<Longrightarrow>
   DockerDnsServiceJob_execute J ctx
     = (Inl (IllegalArgumentError (''Invalid command '' @ jobCommand_type ctx)),
        ctx\<lparr>commands_install := [], commands_unInstall := []\<rparr>)"
  by (simp add: DockerDnsServiceJob_execute_def valid_direction_def)

lemma blacklist_invalid_direction:
  "\<not> valid_direction (jobCommand_type ctx) \<Longrightarrow>
   SynchronizeBlacklistIps_execute J query ctx
     = (Inl (IllegalArgumentError (''Invalid command '' @ jobCommand_type ctx)),
        ctx\<lparr>commands_install := [], commands_unInstall := []\<rparr>)"
  by (simp add: SynchronizeBlacklistIps_execute_def valid_direction_def)

lemma invalid_direction_message:
  "is_InvalidDirectionError (IllegalArgumentError (''Invalid command '' @ token))"
  "\<not> is_InvalidDirectionError (IllegalArgumentError (''Invalid configuration: '' @ m))"
  "\<not> is_InvalidDirectionError TypeError"
  "\<not> is_InvalidDirectionError (DataSourceError m)"
  "is_ValidationError (IllegalArgumentError (''Invalid configuration: '' @ m))"
  by (simp_all add: is_InvalidDirectionError_def is_ValidationError_def)

text \<open>An error of a run is the error of one of its steps.\<close>

lemma run_steps_error:
  assumes "\<And>step c. step \<in> set steps \<Longrightarrow> \<not> P e \<Longrightarrow> step c \<noteq> Inl e"
  shows "fst (run_steps steps ctx) = Some e \<Longrightarrow> P e"
  using assms
proof (induction steps arbitrary: ctx)
  case Nil
  then show ?case by simp
next
  case (Cons s steps)
  show ?case
  proof (cases "s ctx")
    case (Inl a)
    with Cons.prems(1) have "a = e" by simp
    with Inl Cons.prems(2) [of s ctx] show ?thesis by auto
  next
    case (Inr c)
    with Cons.prems(1) have "fst (run_steps steps c) = Some e" by simp
    then show ?thesis
      by (rule Cons.IH) (simp add: Cons.prems(2))
  qed
qed

lemma workflow_error:
  assumes "\<And>step c. step \<in> set steps \<Longrightarrow> \<not> P e \<Longrightarrow> step c \<noteq> Inl e"
    and "fst (workflow steps ctx) = Inl e"
  shows "P e"
proof -
  obtain r ctx' where r: "run_steps steps ctx = (r, ctx')" by (cases "run_steps steps ctx")
  with assms(2) have "r = Some e"
    by (cases r) (simp_all add: workflow_def)
  with r have "fst (run_steps steps ctx) = Some e" by simp
  with assms(1) show ?thesis by (rule run_steps_error)
qed

lemma validate_step_error:
  "validate_step J schema d c = Inl e \<Longrightarrow> \<not> is_InvalidDirectionError e"
  by (auto simp: validate_step_def Joi_validate_def is_InvalidDirectionError_def split: if_splits)


lemma each_result_error:
  assumes "\<And>x y. f x = Inl y \<Longrightarrow> y = TypeError"
  shows "each_result f xs = Inl e \<Longrightarrow> e = TypeError"
proof (induction xs)
  case Nil
  then show ?case by simp
next
  case (Cons x xs)
  show ?case
  proof (cases "f x")
    case (Inl a)
    with Cons.prems assms [of x a] show ?thesis by simp
  next
    case (Inr b)
    with Cons.prems Cons.IH show ?thesis by (simp split: sum.splits)
  qed
qed

lemma trusted_loop_error:
  "each_result trusted_add_command xs = Inl e \<Longrightarrow> e = TypeError"
  by (rule each_result_error [of trusted_add_command])
    (simp_all add: trusted_add_command_def split: js.splits)

lemma default_loop_error:
  "each_result interface_default_commands xs = Inl e \<Longrightarrow> e = TypeError"
  by (rule each_result_error [of interface_default_commands])
    (simp_all add: interface_default_commands_def input_defaultAction_def
      split: js.splits sum.splits)

lemma generator_error:
  "generateVitalAccessChain c = Inl e \<Longrightarrow> e = TypeError"
  "generateBlockNetworkChain c = Inl e \<Longrightarrow> e = TypeError"
  "generateServiceAccessChain c = Inl e \<Longrightarrow> e = TypeError"
  "generateTrustedNetworkChain c = Inl e \<Longrightarrow> e = TypeError"
  "generateRootAccessChains c = Inl e \<Longrightarrow> e = TypeError"
  "GenericServiceJob_generateRules c2 = Inl e \<Longrightarrow> e = TypeError"
  "DockerDnsServiceJob_generateRules c3 = Inl e \<Longrightarrow> e = TypeError"
  by (simp_all add: generateVitalAccessChain_def generateBlockNetworkChain_def
      generateServiceAccessChain_def generateTrustedNetworkChain_def
      generateRootAccessChains_def GenericServiceJob_generateRules_def
      DockerDnsServiceJob_generateRules_def Let_def
      trusted_loop_error default_loop_error split: js.splits sum.splits)

lemma fetchNetworks_error:
  "fetchNetworks query c = Inl e \<Longrightarrow> \<not> is_InvalidDirectionError e"
  by (auto simp: fetchNetworks_def is_InvalidDirectionError_def split: js.splits sum.splits)

lemma prepare_workflow_error:
  assumes "fst (workflow steps c) = Inl e"
    and "set steps \<subseteq> {PrepareNetfilterJob_validateConfiguration J, generateVitalAccessChain,
              generateBlockNetworkChain, generateServiceAccessChain, generateTrustedNetworkChain,
              generateRootAccessChains}"
  shows "\<not> is_InvalidDirectionError e"
proof (rule workflow_error [OF _ assms(1)])
  fix step c'
  assume "step \<in> set steps" "\<not> \<not> is_InvalidDirectionError e"
  with assms(2) consider "step = PrepareNetfilterJob_validateConfiguration J"
    | "step = generateVitalAccessChain" | "step = generateBlockNetworkChain"
    | "step = generateServiceAccessChain" | "step = generateTrustedNetworkChain"
    | "step = generateRootAccessChains"
    by blast
  then have "step c' = Inl e \<Longrightarrow> \<not> is_InvalidDirectionError e"
  proof cases
    case 1
    then show "step c' = Inl e \<Longrightarrow> \<not> is_InvalidDirectionError e"
      using validate_step_error [of J _ _ c' e]
      by (simp add: PrepareNetfilterJob_validateConfiguration_def)
  qed (auto dest: generator_error(1-5) simp: is_InvalidDirectionError_def)
  with \<open>\<not> \<not> is_InvalidDirectionError e\<close> show "step c' \<noteq> Inl e" by blast
qed

lemma prepare_direction_error:
  assumes "valid_direction (jobCommand_type c)"
  shows "\<not> rejects_with is_InvalidDirectionError (fst (PrepareNetfilterJob_execute J c))"
proof
  assume r: "rejects_with is_InvalidDirectionError (fst (PrepareNetfilterJob_execute J c))"
  then obtain e where e: "fst (PrepareNetfilterJob_execute J c) = Inl e" "is_InvalidDirectionError e"
    by (cases "fst (PrepareNetfilterJob_execute J c)") (simp_all add: rejects_with_def)
  let ?c = "c\<lparr>commands_install := [], commands_unInstall := []\<rparr>"
  have "\<not> is_InvalidDirectionError e"
  proof (cases "toLowerCase (jobCommand_type c) = ''install''")
    case True
    with e(1) have "fst (workflow [PrepareNetfilterJob_validateConfiguration J,
        generateVitalAccessChain, generateBlockNetworkChain, generateServiceAccessChain,
        generateTrustedNetworkChain, generateRootAccessChains] ?c) = Inl e"
      by (simp add: PrepareNetfilterJob_execute_def)
    then show ?thesis by (rule prepare_workflow_error) auto
  next
    case False
    with assms e(1) have "fst (workflow [PrepareNetfilterJob_validateConfiguration J,
        generateRootAccessChains, generateTrustedNetworkChain, generateServiceAccessChain,
        generateBlockNetworkChain, generateVitalAccessChain] ?c) = Inl e"
      by (simp add: PrepareNetfilterJob_execute_def valid_direction_def)
    then show ?thesis by (rule prepare_workflow_error) auto
  qed
  with e(2) show False by simp
qed

lemma service_direction_error:
  assumes "valid_direction (jobCommand_type c)"
  shows "\<not> rejects_with is_InvalidDirectionError (fst (GenericServiceJob_execute J c))"
proof
  assume r: "rejects_with is_InvalidDirectionError (fst (GenericServiceJob_execute J c))"
  then obtain e where e: "fst (GenericServiceJob_execute J c) = Inl e" "is_InvalidDirectionError e"
    by (cases "fst (GenericServiceJob_execute J c)") (simp_all add: rejects_with_def)
  let ?c = "c\<lparr>commands_install := [], commands_unInstall := []\<rparr>"
  from assms e(1)
  have w: "fst (workflow [GenericServiceJob_validateConfiguration J, GenericServiceJob_generateRules] ?c)
             = Inl e"
    by (auto simp: GenericServiceJob_execute_def valid_direction_def split: if_splits)
  have "\<not> is_InvalidDirectionError e"
  proof (rule workflow_error [OF _ w])
    fix step c'
    assume "step \<in> set [GenericServiceJob_validateConfiguration J, GenericServiceJob_generateRules]"
      "\<not> \<not> is_InvalidDirectionError e"
    then show "step c' \<noteq> Inl e"
      using validate_step_error [of J _ _ c' e] generator_error(6) [of c' e]
      by (auto simp: GenericServiceJob_validateConfiguration_def is_InvalidDirectionError_def)
  qed
  with e(2) show False by simp
qed

lemma dns_direction_error:
  assumes "valid_direction (jobCommand_type c)"
  shows "\<not> rejects_with is_InvalidDirectionError (fst (DockerDnsServiceJob_execute J c))"
proof
  assume r: "rejects_with is_InvalidDirectionError (fst (DockerDnsServiceJob_execute J c))"
  then obtain e where e: "fst (DockerDnsServiceJob_execute J c) = Inl e" "is_InvalidDirectionError e"
    by (cases "fst (DockerDnsServiceJob_execute J c)") (simp_all add: rejects_with_def)
  let ?c = "c\<lparr>commands_install := [], commands_unInstall := []\<rparr>"
  from assms e(1)
  have w: "fst (workflow [DockerDnsServiceJob_validateConfiguration J, DockerDnsServiceJob_generateRules] ?c)
             = Inl e"
    by (auto simp: DockerDnsServiceJob_execute_def valid_direction_def split: if_splits)
  have "\<not> is_InvalidDirectionError e"
  proof (rule workflow_error [OF _ w])
    fix step c'
    assume "step \<in> set [DockerDnsServiceJob_validateConfiguration J, DockerDnsServiceJob_generateRules]"
      "\<not> \<not> is_InvalidDirectionError e"
    then show "step c' \<noteq> Inl e"
      using validate_step_error [of J _ _ c' e] generator_error(7) [of c' e]
      by (auto simp: DockerDnsServiceJob_validateConfiguration_def is_InvalidDirectionError_def)
  qed
  with e(2) show False by simp
qed

lemma blacklist_direction_error:
  assumes "valid_direction (jobCommand_type c)"
  shows "\<not> rejects_with is_InvalidDirectionError (fst (SynchronizeBlacklistIps_execute J query c))"
proof
  assume r: "rejects_with is_InvalidDirectionError (fst (SynchronizeBlacklistIps_execute J query c))"
  then obtain e where e: "fst (SynchronizeBlacklistIps_execute J query c) = Inl e"
    "is_InvalidDirectionError e"
    by (cases "fst (SynchronizeBlacklistIps_execute J query c)") (simp_all add: rejects_with_def)
  let ?c = "c\<lparr>commands_install := [], commands_unInstall := []\<rparr>"
  from assms e(1)
  have w: "fst (workflow [SynchronizeBlacklistIps_validateConfiguration J, fetchNetworks query] ?c)
             = Inl e"
    by (auto simp: SynchronizeBlacklistIps_execute_def valid_direction_def split: if_splits)
  have "\<not> is_InvalidDirectionError e"
  proof (rule workflow_error [OF _ w])
    fix step c'
    assume "step \<in> set [SynchronizeBlacklistIps_validateConfiguration J, fetchNetworks query]"
      "\<not> \<not> is_InvalidDirectionError e"
    then show "step c' \<noteq> Inl e"
      using validate_step_error [of J _ _ c' e] fetchNetworks_error [of query c' e]
      by (auto simp: SynchronizeBlacklistIps_validateConfiguration_def)
  qed
  with e(2) show False by simp
qed

lemma prepare_direction:
  "(rejects_with is_InvalidDirectionError (fst (PrepareNetfilterJob_execute J c))
      \<longleftrightarrow> \<not> valid_direction (jobCommand_type c))
   \<and> (\<not> valid_direction (jobCommand_type c)
        \<longrightarrow> untouched c (snd (PrepareNetfilterJob_execute J c)))"
proof (cases "valid_direction (jobCommand_type c)")
  case True
  then show ?thesis using prepare_direction_error by simp
next
  case False
  then show ?thesis
    by (simp add: prepare_invalid_direction rejects_with_def untouched_def
        is_InvalidDirectionError_def)
qed

lemma service_direction:
  "(rejects_with is_InvalidDirectionError (fst (GenericServiceJob_execute J c))
      \<longleftrightarrow> \<not> valid_direction (jobCommand_type c))
   \<and> (\<not> valid_direction (jobCommand_type c)
        \<longrightarrow> untouched c (snd (GenericServiceJob_execute J c)))"
proof (cases "valid_direction (jobCommand_type c)")
  case True
  then show ?thesis using service_direction_error by simp
next
  case False
  then show ?thesis
    by (simp add: service_invalid_direction rejects_with_def untouched_def
        is_InvalidDirectionError_def)
qed

lemma dns_direction:
  "(rejects_with is_InvalidDirectionError (fst (DockerDnsServiceJob_execute J c))
      \<longleftrightarrow> \<not> valid_direction (jobCommand_type c))
   \<and> (\<not> valid_direction (jobCommand_type c)
        \<longrightarrow> untouched c (snd (DockerDnsServiceJob_execute J c)))"
proof (cases "valid_direction (jobCommand_type c)")
  case True
  then show ?thesis using dns_direction_error by simp
next
  case False
  then show ?thesis
    by (simp add: dns_invalid_direction rejects_with_def untouched_def
        is_InvalidDirectionError_def)
qed

lemma blacklist_direction:
  "(rejects_with is_InvalidDirectionError (fst (SynchronizeBlacklistIps_execute J query c))
      \<longleftrightarrow> \<not> valid_direction (jobCommand_type c))
   \<and> (\<not> valid_direction (jobCommand_type c)
        \<longrightarrow> untouched c (snd (SynchronizeBlacklistIps_execute J query c)))"
proof (cases "valid_direction (jobCommand_type c)")
  case True
  then show ?thesis using blacklist_direction_error by simp
next
  case False
  then show ?thesis
    by (simp add: blacklist_invalid_direction rejects_with_def untouched_def
        is_InvalidDirectionError_def)
qed

text \<open>
  C4. Each job's \<open>execute\<close> rejects with the error for a bad direction exactly when the
  lowercased token is neither \<open>install\<close> nor \<open>uninstall\<close>, and then no step has run:
  the context holds two empty command lists and is otherwise as it was given.
\<close>

theorem invalid_direction_rejected_before_any_step:
  "(rejects_with is_InvalidDirectionError (fst (PrepareNetfilterJob_execute J c1))
      \<longleftrightarrow> \<not> valid_direction (jobCommand_type c1))
   \<and> (\<not> valid_direction (jobCommand_type c1)
        \<longrightarrow> untouched c1 (snd (PrepareNetfilterJob_execute J c1)))
   \<and> (rejects_with is_InvalidDirectionError (fst (GenericServiceJob_execute J c2))
        \<longleftrightarrow> \<not> valid_direction (jobCommand_type c2))
   \<and> (\<not> valid_direction (jobCommand_type c2)
        \<longrightarrow> untouched c2 (snd (GenericServiceJob_execute J c2)))
   \<and> (rejects_with is_InvalidDirectionError (fst (DockerDnsServiceJob_execute J c3))
        \<longleftrightarrow> \<not> valid_direction (jobCommand_type c3))
   \<and> (\<not> valid_direction (jobCommand_type c3)
        \<longrightarrow> untouched c3 (snd (DockerDnsServiceJob_execute J c3)))
   \<and> (rejects_with is_InvalidDirectionError (fst (SynchronizeBlacklistIps_execute J query c4))
        \<longleftrightarrow> \<not> valid_direction (jobCommand_type c4))
   \<and> (\<not> valid_direction (jobCommand_type c4)
        \<longrightarrow> untouched c4 (snd (SynchronizeBlacklistIps_execute J query c4)))"
  using prepare_direction [of J c1] service_direction [of J c2] dns_direction [of J c3]
    blacklist_direction [of J query c4]
  by blast


lemma lowercase_INSTALL: "toLowerCase ''INSTALL'' = ''install''"
  by code_simp

theorem invalid_direction_rejected_before_any_step_witness:
  "\<not> valid_direction ''reinstall''
   \<and> rejects_with is_InvalidDirectionError
        (fst (PrepareNetfilterJob_execute example_Joi (prepare_example ''reinstall'')))
   \<and> untouched (prepare_example ''reinstall'')
        (snd (PrepareNetfilterJob_execute example_Joi (prepare_example ''reinstall'')))
   \<and> rejects_with is_InvalidDirectionError
        (fst (GenericServiceJob_execute example_Joi (service_example ''reinstall'')))
   \<and> untouched (service_example ''reinstall'')
        (snd (GenericServiceJob_execute example_Joi (service_example ''reinstall'')))
   \<and> rejects_with is_InvalidDirectionError
        (fst (DockerDnsServiceJob_execute example_Joi (dns_example ''reinstall'')))
   \<and> untouched (dns_example ''reinstall'')
        (snd (DockerDnsServiceJob_execute example_Joi (dns_example ''reinstall'')))
   \<and> rejects_with is_InvalidDirectionError
        (fst (SynchronizeBlacklistIps_execute example_Joi example_source (blacklist_example ''reinstall'')))
   \<and> untouched (blacklist_example ''reinstall'')
        (snd (SynchronizeBlacklistIps_execute example_Joi example_source (blacklist_example ''reinstall'')))
   \<and> valid_direction ''INSTALL''
   \<and> \<not> rejects_with is_InvalidDirectionError
        (fst (PrepareNetfilterJob_execute example_Joi (prepare_example ''INSTALL'')))"
proof -
  have n: "\<not> valid_direction ''reinstall''"
    by (simp add: valid_direction_def toLowerCase_def lower_char_def)
  have y: "valid_direction ''INSTALL''"
    by (simp add: valid_direction_def lowercase_INSTALL)
  have t: "jobCommand_type (prepare_example d) = d" "jobCommand_type (service_example d) = d"
    "jobCommand_type (dns_example d) = d" "jobCommand_type (blacklist_example d) = d" for d
    by (simp_all add: prepare_example_def service_example_def dns_example_def
        blacklist_example_def example_context_def)
  show ?thesis
    using invalid_direction_rejected_before_any_step
      [of example_Joi "prepare_example ''reinstall''" "service_example ''reinstall''"
        "dns_example ''reinstall''" example_source "blacklist_example ''reinstall''"]
      invalid_direction_rejected_before_any_step
      [of example_Joi "prepare_example ''INSTALL''" "service_example ''reinstall''"
        "dns_example ''reinstall''" example_source "blacklist_example ''reinstall''"]
      n y
    by (simp add: t)
qed

lemma prepare_invalid_policy:
  assumes "\<not> schema_PrepareNetfilterJob J (jobConfiguration c)"
  shows "untouched c (snd (PrepareNetfilterJob_execute J c))
    \<and> rejects_with (if valid_direction (jobCommand_type c) then is_ValidationError
                     else is_InvalidDirectionError) (fst (PrepareNetfilterJob_execute J c))"
proof (cases "valid_direction (jobCommand_type c)")
  case True
  with assms show ?thesis
    by (auto simp: PrepareNetfilterJob_execute_def valid_direction_def workflow_def
        PrepareNetfilterJob_validateConfiguration_def validate_step_fail untouched_def
        rejects_with_def is_ValidationError_def)
next
  case False
  then show ?thesis
    by (simp add: prepare_invalid_direction rejects_with_def untouched_def
        is_InvalidDirectionError_def)
qed

lemma service_invalid_policy:
  assumes "\<not> schema_GenericServiceJob J (jobConfiguration c)"
  shows "untouched c (snd (GenericServiceJob_execute J c))
    \<and> rejects_with (if valid_direction (jobCommand_type c) then is_ValidationError
                     else is_InvalidDirectionError) (fst (GenericServiceJob_execute J c))"
proof (cases "valid_direction (jobCommand_type c)")
  case True
  with assms show ?thesis
    by (auto simp: GenericServiceJob_execute_def valid_direction_def workflow_def
        GenericServiceJob_validateConfiguration_def validate_step_fail untouched_def
        rejects_with_def is_ValidationError_def)
next
  case False
  then show ?thesis
    by (simp add: service_invalid_direction rejects_with_def untouched_def
        is_InvalidDirectionError_def)
qed

lemma dns_invalid_policy:
  assumes "\<not> schema_DockerDnsServiceJob J (jobConfiguration c)"
  shows "untouched c (snd (DockerDnsServiceJob_execute J c))
    \<and> rejects_with (if valid_direction (jobCommand_type c) then is_ValidationError
                     else is_InvalidDirectionError) (fst (DockerDnsServiceJob_execute J c))"
proof (cases "valid_direction (jobCommand_type c)")
  case True
  with assms show ?thesis
    by (auto simp: DockerDnsServiceJob_execute_def valid_direction_def workflow_def
        DockerDnsServiceJob_validateConfiguration_def validate_step_fail untouched_def
        rejects_with_def is_ValidationError_def)
next
  case False
  then show ?thesis
    by (simp add: dns_invalid_direction rejects_with_def untouched_def
        is_InvalidDirectionError_def)
qed

lemma blacklist_invalid_policy:
  assumes "\<not> schema_SynchronizeBlacklistIps J (jobConfiguration c)"
  shows "untouched c (snd (SynchronizeBlacklistIps_execute J query c))
    \<and> rejects_with (if valid_direction (jobCommand_type c) then is_ValidationError
                     else is_InvalidDirectionError) (fst (SynchronizeBlacklistIps_execute J query c))"
proof (cases "valid_direction (jobCommand_type c)")
  case True
  with assms show ?thesis
    by (auto simp: SynchronizeBlacklistIps_execute_def valid_direction_def workflow_def
        SynchronizeBlacklistIps_validateConfiguration_def validate_step_fail untouched_def
        rejects_with_def is_ValidationError_def)
next
  case False
  then show ?thesis
    by (simp add: blacklist_invalid_direction rejects_with_def untouched_def
        is_InvalidDirectionError_def)
qed

text \<open>
  C3. When the policy fails the job's schema, \<open>execute\<close> rejects and no step after the
  validation has run: the install and the uninstall list of the context are empty and
  nothing else in it has changed. With a direction token the job accepts, the rejection
  is the validation error; with any other token it is the direction error of C4.
\<close>

theorem invalid_policy_rejected_without_commands:
  "(\<not> schema_PrepareNetfilterJob J (jobConfiguration c1) \<longrightarrow>
      untouched c1 (snd (PrepareNetfilterJob_execute J c1))
      \<and> rejects_with (if valid_direction (jobCommand_type c1) then is_ValidationError
                       else is_InvalidDirectionError) (fst (PrepareNetfilterJob_execute J c1)))
   \<and> (\<not> schema_GenericServiceJob J (jobConfiguration c2) \<longrightarrow>
      untouched c2 (snd (GenericServiceJob_execute J c2))
      \<and> rejects_with (if valid_direction (jobCommand_type c2) then is_ValidationError
                       else is_InvalidDirectionError) (fst (GenericServiceJob_execute J c2)))
   \<and> (\<not> schema_DockerDnsServiceJob J (jobConfiguration c3) \<longrightarrow>
      untouched c3 (snd (DockerDnsServiceJob_execute J c3))
      \<and> rejects_with (if valid_direction (jobCommand_type c3) then is_ValidationError
                       else is_InvalidDirectionError) (fst (DockerDnsServiceJob_execute J c3)))
   \<and> (\<not> schema_SynchronizeBlacklistIps J (jobConfiguration c4) \<longrightarrow>
      untouched c4 (snd (SynchronizeBlacklistIps_execute J query c4))
      \<and> rejects_with (if valid_direction (jobCommand_type c4) then is_ValidationError
                       else is_InvalidDirectionError)
           (fst (SynchronizeBlacklistIps_execute J query c4)))"
  using prepare_invalid_policy [of J c1] service_invalid_policy [of J c2]
    dns_invalid_policy [of J c3] blacklist_invalid_policy [of J c4 query]
  by blast


lemma missing_port_fails_schema:
  assumes "sc_network c = Val n" "sn_items n = Val items" "i \<in> set items"
    "si_portNumber i = Undefined"
  shows "\<not> schema_GenericServiceJob J c"
proof
  assume "schema_GenericServiceJob J c"
  with assms(1,2) have "list_all (schema_ServiceItem J) items"
    by (simp add: schema_GenericServiceJob_def array_items_def)
  with assms(3) have "schema_ServiceItem J i" by (simp add: list_all_iff)
  with assms(4) show False by (simp add: schema_ServiceItem_def)
qed

theorem invalid_policy_rejected_without_commands_witness:
  "\<not> schema_PrepareNetfilterJob example_Joi
        (jobConfiguration ((prepare_example ''install'')\<lparr>jobConfiguration := \<lparr>pc_network = Undefined\<rparr>\<rparr>))
   \<and> untouched ((prepare_example ''install'')\<lparr>jobConfiguration := \<lparr>pc_network = Undefined\<rparr>\<rparr>)
        (snd (PrepareNetfilterJob_execute example_Joi
               ((prepare_example ''install'')\<lparr>jobConfiguration := \<lparr>pc_network = Undefined\<rparr>\<rparr>)))
   \<and> rejects_with is_ValidationError
        (fst (PrepareNetfilterJob_execute example_Joi
               ((prepare_example ''install'')\<lparr>jobConfiguration := \<lparr>pc_network = Undefined\<rparr>\<rparr>)))
   \<and> \<not> schema_GenericServiceJob example_Joi (jobConfiguration (service_without_port ''install''))
   \<and> untouched (service_without_port ''install'')
        (snd (GenericServiceJob_execute example_Joi (service_without_port ''install'')))
   \<and> rejects_with is_ValidationError
        (fst (GenericServiceJob_execute example_Joi (service_without_port ''install'')))
   \<and> \<not> schema_DockerDnsServiceJob example_Joi
        (jobConfiguration ((dns_example ''uninstall'')
           \<lparr>jobConfiguration := \<lparr>dc_chainName = Undefined, dc_network = Null\<rparr>\<rparr>))
   \<and> untouched ((dns_example ''uninstall'')
           \<lparr>jobConfiguration := \<lparr>dc_chainName = Undefined, dc_network = Null\<rparr>\<rparr>)
        (snd (DockerDnsServiceJob_execute example_Joi ((dns_example ''uninstall'')
           \<lparr>jobConfiguration := \<lparr>dc_chainName = Undefined, dc_network = Null\<rparr>\<rparr>)))
   \<and> rejects_with is_ValidationError
        (fst (DockerDnsServiceJob_execute example_Joi ((dns_example ''uninstall'')
           \<lparr>jobConfiguration := \<lparr>dc_chainName = Undefined, dc_network = Null\<rparr>\<rparr>)))
   \<and> \<not> schema_SynchronizeBlacklistIps example_Joi
        (jobConfiguration ((blacklist_example ''install'')
           \<lparr>jobConfiguration := \<lparr>bc_database = Val \<lparr>db_connectionString = Val ''mysql://localhost''\<rparr>\<rparr>\<rparr>))
   \<and> untouched ((blacklist_example ''install'')
           \<lparr>jobConfiguration := \<lparr>bc_database = Val \<lparr>db_connectionString = Val ''mysql://localhost''\<rparr>\<rparr>\<rparr>)
        (snd (SynchronizeBlacklistIps_execute example_Joi example_source ((blacklist_example ''install'')
           \<lparr>jobConfiguration := \<lparr>bc_database = Val \<lparr>db_connectionString = Val ''mysql://localhost''\<rparr>\<rparr>\<rparr>)))
   \<and> rejects_with is_ValidationError
        (fst (SynchronizeBlacklistIps_execute example_Joi example_source ((blacklist_example ''install'')
           \<lparr>jobConfiguration := \<lparr>bc_database = Val \<lparr>db_connectionString = Val ''mysql://localhost''\<rparr>\<rparr>\<rparr>)))"
proof -
  let ?c1 = "(prepare_example ''install'')\<lparr>jobConfiguration := \<lparr>pc_network = Undefined\<rparr>\<rparr>"
  let ?c2 = "service_without_port ''install''"
  let ?c3 = "(dns_example ''uninstall'')
           \<lparr>jobConfiguration := \<lparr>dc_chainName = Undefined, dc_network = Null\<rparr>\<rparr>"
  let ?c4 = "(blacklist_example ''install'')
           \<lparr>jobConfiguration := \<lparr>bc_database = Val \<lparr>db_connectionString = Val ''mysql://localhost''\<rparr>\<rparr>\<rparr>"
  have 1: "\<not> schema_PrepareNetfilterJob example_Joi (jobConfiguration ?c1)"
    by (simp add: schema_PrepareNetfilterJob_def)
  have 2: "\<not> schema_GenericServiceJob example_Joi (jobConfiguration ?c2)"
    by (simp add: schema_GenericServiceJob_def schema_ServiceItem_def array_items_def
        service_without_port_def example_context_def)
  have 3: "\<not> schema_DockerDnsServiceJob example_Joi (jobConfiguration ?c3)"
    by (simp add: schema_DockerDnsServiceJob_def)
  have 4: "\<not> schema_SynchronizeBlacklistIps example_Joi (jobConfiguration ?c4)"
    by (simp add: schema_SynchronizeBlacklistIps_def joi_string_format_def example_Joi_def)
  have d: "valid_direction (jobCommand_type ?c1)" "valid_direction (jobCommand_type ?c2)"
    "valid_direction (jobCommand_type ?c3)" "valid_direction (jobCommand_type ?c4)"
    by (simp_all add: valid_direction_def lowercase_tokens prepare_example_def
        service_without_port_def dns_example_def blacklist_example_def example_context_def)
  show ?thesis
    using invalid_policy_rejected_without_commands [of example_Joi ?c1 ?c2 ?c3 ?c4 example_source]
      1 2 3 4 d
    by presburger
qed

lemma service_run:
  assumes "schema_GenericServiceJob J (jobConfiguration c)"
    and "valid_direction (jobCommand_type c)"
    and "configurationJob c = Val entry"
    and "sc_network (jobConfiguration c) = Val n"
  defines "chain \<equiv> or_default (cj_chainName entry) GenericServiceJob_getServiceChainName"
  shows "fst (GenericServiceJob_execute J c)
           = Inr (if jobCommand_type c = ''install''
                  then service_installCommands chain (or_empty (sn_items n))
                  else service_unInstallCommands chain)"
    and "commands_install (snd (GenericServiceJob_execute J c))
           = service_installCommands chain (or_empty (sn_items n))"
    and "commands_unInstall (snd (GenericServiceJob_execute J c)) = service_unInstallCommands chain"
  using assms(1-4)
  by (auto simp: GenericServiceJob_execute_def valid_direction_def workflow_def
      GenericServiceJob_validateConfiguration_def validate_step_ok
      GenericServiceJob_generateRules_def append_commands_def chain_def Let_def)

lemma dns_run:
  assumes "schema_DockerDnsServiceJob J (jobConfiguration c)"
    and "valid_direction (jobCommand_type c)"
    and "dc_network (jobConfiguration c) = Val n"
    and "dn_items n = Val items"
  defines "chain \<equiv> or_default (dc_chainName (jobConfiguration c)) DockerDnsServiceJob_getServiceChainName"
  shows "fst (DockerDnsServiceJob_execute J c)
           = Inr (if jobCommand_type c = ''install''
                  then dns_installCommands chain (map default_DnsItem items)
                  else dns_unInstallCommands chain (map default_DnsItem items))"
    and "commands_install (snd (DockerDnsServiceJob_execute J c))
           = dns_installCommands chain (map default_DnsItem items)"
    and "commands_unInstall (snd (DockerDnsServiceJob_execute J c))
           = dns_unInstallCommands chain (map default_DnsItem items)"
    and "jobConfiguration (snd (DockerDnsServiceJob_execute J c))
           = default_DnsConfiguration (jobConfiguration c)"
  using assms(1-4)
  by (auto simp: DockerDnsServiceJob_execute_def valid_direction_def workflow_def
      DockerDnsServiceJob_validateConfiguration_def validate_step_ok
      DockerDnsServiceJob_generateRules_def append_commands_def chain_def Let_def
      default_DnsConfiguration_def)

lemma blacklist_run:
  assumes "schema_SynchronizeBlacklistIps J (jobConfiguration c)"
    and "valid_direction (jobCommand_type c)"
    and "bc_database (jobConfiguration c) = Val database"
    and "db_connectionString database = Val connectionString"
    and "query connectionString = Inr rows"
  shows "fst (SynchronizeBlacklistIps_execute J query c)
           = Inr (if jobCommand_type c = ''install''
                  then map (\<lambda>item. SecurityCommand ''ipset''
                              (''-! add block_net '' @ str_text (row_value item))) rows
                  else [SecurityCommand ''ipset'' ''flush block_net''])"
    and "commands_install (snd (SynchronizeBlacklistIps_execute J query c))
           = map (\<lambda>item. SecurityCommand ''ipset''
                              (''-! add block_net '' @ str_text (row_value item))) rows"
    and "commands_unInstall (snd (SynchronizeBlacklistIps_execute J query c))
           = [SecurityCommand ''ipset'' ''flush block_net'']"
  using assms
  by (auto simp: SynchronizeBlacklistIps_execute_def valid_direction_def workflow_def
      SynchronizeBlacklistIps_validateConfiguration_def validate_step_ok fetchNetworks_def)


lemma service_example_valid:
  "schema_GenericServiceJob example_Joi (jobConfiguration (service_example direction))"
  "schema_GenericServiceJob example_Joi (jobConfiguration (service_named direction))"
  "schema_GenericServiceJob example_Joi (jobConfiguration (service_two_items direction))"
  by (simp_all add: schema_GenericServiceJob_def schema_ServiceItem_def array_items_def
      joi_string_def joi_string_format_def joi_number_def service_example_def service_named_def
      service_two_items_def example_context_def example_service_item_def example_open_item_def
      example_Joi_def)






lemma dns_example_valid:
  "schema_DockerDnsServiceJob example_Joi (jobConfiguration (dns_example direction))"
  by (simp add: schema_DockerDnsServiceJob_def schema_DnsItem_def array_items_def
      joi_string_def joi_string_format_def joi_number_def dns_example_def
      example_context_def example_dns_item_def example_Joi_def)


text \<open>
  C8. With a valid configuration and a data source that answers, the install transcript
  of the blacklist job is one set-add command for each row, in the order of the rows,
  and the uninstall transcript is the single command that flushes \<open>block_net\<close>. The
  install transcript is a function of the rows alone: another run that is given the
  same rows returns the same transcript.
\<close>

theorem blacklist_one_add_per_entry:
  assumes "schema_SynchronizeBlacklistIps J (jobConfiguration c)"
    and "bc_database (jobConfiguration c) = Val database"
    and "db_connectionString database = Val connectionString"
    and "query connectionString = Inr rows"
  shows "(jobCommand_type c = ''install'' \<longrightarrow>
            fst (SynchronizeBlacklistIps_execute J query c)
              = Inr (map (\<lambda>item. SecurityCommand ''ipset''
                            (''-! add block_net '' @ str_text (row_value item))) rows))
         \<and> (jobCommand_type c = ''uninstall'' \<longrightarrow>
            fst (SynchronizeBlacklistIps_execute J query c)
              = Inr [SecurityCommand ''ipset'' ''flush block_net''])
         \<and> (jobCommand_type c = ''install''
              \<and> schema_SynchronizeBlacklistIps J' (jobConfiguration c')
              \<and> jobCommand_type c' = ''install''
              \<and> bc_database (jobConfiguration c') = Val database'
              \<and> db_connectionString database' = Val connectionString'
              \<and> query' connectionString' = Inr rows \<longrightarrow>
            fst (SynchronizeBlacklistIps_execute J' query' c')
              = fst (SynchronizeBlacklistIps_execute J query c))"
proof -
  have v: "valid_direction ''install''" "valid_direction ''uninstall''"
    by (simp_all add: valid_direction_def toLowerCase_def lower_char_def)
  have 1: "fst (SynchronizeBlacklistIps_execute J query c)
              = Inr (map (\<lambda>item. SecurityCommand ''ipset''
                            (''-! add block_net '' @ str_text (row_value item))) rows)"
    if "jobCommand_type c = ''install''"
  proof -
    from that v have "valid_direction (jobCommand_type c)" by simp
    from blacklist_run(1) [where J = J and c = c and query = query and rows = rows
        and database = database and connectionString = connectionString] assms this that
    show ?thesis by simp
  qed
  have 2: "fst (SynchronizeBlacklistIps_execute J query c)
              = Inr [SecurityCommand ''ipset'' ''flush block_net'']"
    if "jobCommand_type c = ''uninstall''"
  proof -
    from that v have "valid_direction (jobCommand_type c)" by simp
    from blacklist_run(1) [where J = J and c = c and query = query and rows = rows
        and database = database and connectionString = connectionString] assms this that
    show ?thesis by simp
  qed
  have 3: "fst (SynchronizeBlacklistIps_execute J' query' c')
              = Inr (map (\<lambda>item. SecurityCommand ''ipset''
                            (''-! add block_net '' @ str_text (row_value item))) rows)"
    if "schema_SynchronizeBlacklistIps J' (jobConfiguration c')"
      "jobCommand_type c' = ''install''"
      "bc_database (jobConfiguration c') = Val database'"
      "db_connectionString database' = Val connectionString'"
      "query' connectionString' = Inr rows"
  proof -
    from that(2) v have "valid_direction (jobCommand_type c')" by simp
    from blacklist_run(1) [where J = J' and c = c' and query = query' and rows = rows
        and database = database' and connectionString = connectionString'] this that
    show ?thesis by simp
  qed
  from 1 2 3 show ?thesis by simp
qed


lemma blacklist_example_valid:
  "schema_SynchronizeBlacklistIps example_Joi (jobConfiguration (blacklist_example direction))"
  by (simp add: schema_SynchronizeBlacklistIps_def joi_string_format_def blacklist_example_def
      example_context_def example_Joi_def)

lemma blacklist_example_fields:
  "jobCommand_type (blacklist_example direction) = direction"
  "bc_database (jobConfiguration (blacklist_example direction))
     = Val \<lparr>db_connectionString = Val ''postgres://localhost/security''\<rparr>"
  "db_connectionString \<lparr>db_connectionString = Val ''postgres://localhost/security''\<rparr>
     = Val ''postgres://localhost/security''"
  "example_source ''postgres://localhost/security''
     = Inr [\<lparr>row_value = Val ''198.51.100.0/24''\<rparr>, \<lparr>row_value = Val ''203.0.113.0/24''\<rparr>]"
  by (simp_all add: blacklist_example_def example_context_def example_source_def)

theorem blacklist_one_add_per_entry_witness:
  "fst (SynchronizeBlacklistIps_execute example_Joi example_source (blacklist_example ''install''))
     = Inr [SecurityCommand ''ipset'' ''-! add block_net 198.51.100.0/24'',
            SecurityCommand ''ipset'' ''-! add block_net 203.0.113.0/24'']
   \<and> fst (SynchronizeBlacklistIps_execute example_Joi example_source (blacklist_example ''uninstall''))
     = Inr [SecurityCommand ''ipset'' ''flush block_net'']
   \<and> fst (SynchronizeBlacklistIps_execute example_Joi example_source
            ((blacklist_example ''install'')\<lparr>global_trustedItems := Null\<rparr>))
     = fst (SynchronizeBlacklistIps_execute example_Joi example_source (blacklist_example ''install''))"
proof -
  let ?c' = "(blacklist_example ''install'')\<lparr>global_trustedItems := Null\<rparr>"
  have c': "schema_SynchronizeBlacklistIps example_Joi (jobConfiguration ?c')"
    "jobCommand_type ?c' = ''install''"
    "bc_database (jobConfiguration ?c')
       = Val \<lparr>db_connectionString = Val ''postgres://localhost/security''\<rparr>"
    using blacklist_example_valid [of "''install''"] by (simp_all add: blacklist_example_fields)
  note i = blacklist_one_add_per_entry
    [where query = example_source and query' = example_source and J' = example_Joi and c' = ?c'
      and database' = "\<lparr>db_connectionString = Val ''postgres://localhost/security''\<rparr>"
      and connectionString' = "''postgres://localhost/security''",
      OF blacklist_example_valid blacklist_example_fields(2,3,4), of "''install''"]
  note u = blacklist_one_add_per_entry
    [where query = example_source and query' = example_source and J' = example_Joi and c' = ?c'
      and database' = "\<lparr>db_connectionString = Val ''postgres://localhost/security''\<rparr>"
      and connectionString' = "''postgres://localhost/security''",
      OF blacklist_example_valid blacklist_example_fields(2,3,4), of "''uninstall''"]
  have 1: "fst (SynchronizeBlacklistIps_execute example_Joi example_source (blacklist_example ''install''))
     = Inr [SecurityCommand ''ipset'' ''-! add block_net 198.51.100.0/24'',
            SecurityCommand ''ipset'' ''-! add block_net 203.0.113.0/24'']"
    using i [THEN conjunct1] by (simp add: blacklist_example_fields(1))
  have 2: "fst (SynchronizeBlacklistIps_execute example_Joi example_source (blacklist_example ''uninstall''))
     = Inr [SecurityCommand ''ipset'' ''flush block_net'']"
    using u [THEN conjunct2, THEN conjunct1] by (simp add: blacklist_example_fields(1))
  have 3: "fst (SynchronizeBlacklistIps_execute example_Joi example_source ?c')
     = fst (SynchronizeBlacklistIps_execute example_Joi example_source (blacklist_example ''install''))"
    using i [THEN conjunct2, THEN conjunct2] c' blacklist_example_fields(1,3,4)
    by blast
  from 1 2 3 show ?thesis by (intro conjI)
qed

text \<open>
  C9 at the failing input. The policy of the generic service job names the chain
  \<open>web\<close>; the job's entry in the configuration file names none. The policy is valid,
  and the transcript is the one of the same policy without a chain name: every command
  refers to \<open>genericServiceName\<close>.
\<close>

theorem service_chain_name_of_policy_ignored:
  "schema_GenericServiceJob example_Joi (jobConfiguration (service_named ''install''))
   \<and> sc_chainName (jobConfiguration (service_named ''install'')) = Val ''web''
   \<and> fst (GenericServiceJob_execute example_Joi (service_named ''install''))
       = Inr [asIptables4Command ''-N IN_genericServiceName'',
              asIptables4Command ''-N OUT_genericServiceName'',
              asIptables4Command ''-A IN_genericServiceName -s 10.0.0.0/8  -p tcp --sport 1024:65535 --dport 443 -j ACCEPT'',
              asIptables4Command ''-A IN_genericServiceName -s 10.1.0.0/16  -p tcp --sport 1024:65535 --dport 443 -j ACCEPT'',
              asIptables4Command ''-A IN_genericServiceName -j RETURN'',
              asIptables4Command ''-A OUT_genericServiceName -j RETURN'',
              asIptables4Command ''-I IN_services_access_0 1 -j IN_genericServiceName'',
              asIptables4Command ''-I OUT_services_access_0 1 -j OUT_genericServiceName'']
   \<and> fst (GenericServiceJob_execute example_Joi (service_named ''uninstall''))
       = Inr [asIptables4Command ''-D IN_services_access_0 -j IN_genericServiceName'',
              asIptables4Command ''-D OUT_services_access_0 -j OUT_genericServiceName'',
              asIptables4Command ''-F IN_genericServiceName'',
              asIptables4Command ''-X IN_genericServiceName'',
              asIptables4Command ''-F OUT_genericServiceName'',
              asIptables4Command ''-X OUT_genericServiceName'']"
proof -
  have f: "valid_direction (jobCommand_type (service_named ''install''))"
    "valid_direction (jobCommand_type (service_named ''uninstall''))"
    "configurationJob (service_named d) = Val \<lparr>cj_name = Val ''job'', cj_chainName = Undefined\<rparr>"
    "sc_network (jobConfiguration (service_named d)) = Val \<lparr>sn_items = Val [example_service_item]\<rparr>"
    "sc_chainName (jobConfiguration (service_named d)) = Val ''web''"
    "jobCommand_type (service_named d) = d" for d
    by (simp_all add: service_named_def example_context_def valid_direction_def lowercase_tokens)
  show ?thesis
    using service_run(1) [OF service_example_valid(2) f(1) f(3) f(4)]
      service_run(1) [OF service_example_valid(2) f(2) f(3) f(4)]
    by (simp add: service_example_valid f GenericServiceJob_getServiceChainName_def
        service_installCommands_def service_unInstallCommands_def service_item_commands_def
        example_service_item_def)
qed

text \<open>The docker DNS job does take the chain name from its policy.\<close>

lemma dns_chain_name_of_policy:
  assumes "schema_DockerDnsServiceJob J (jobConfiguration c)"
    and "valid_direction (jobCommand_type c)"
    and "dc_network (jobConfiguration c) = Val n"
    and "dn_items n = Val items"
    and "dc_chainName (jobConfiguration c) = Val name"
  shows "commands_install (snd (DockerDnsServiceJob_execute J c))
           = dns_installCommands name (map default_DnsItem items)"
    and "commands_unInstall (snd (DockerDnsServiceJob_execute J c))
           = dns_unInstallCommands name (map default_DnsItem items)"
proof -
  from assms(1,5) have "name \<noteq> []"
    by (simp add: schema_DockerDnsServiceJob_def joi_string_def)
  with dns_run(2,3) [OF assms(1-4)] assms(5)
  show "commands_install (snd (DockerDnsServiceJob_execute J c))
           = dns_installCommands name (map default_DnsItem items)"
    and "commands_unInstall (snd (DockerDnsServiceJob_execute J c))
           = dns_unInstallCommands name (map default_DnsItem items)"
    by simp_all
qed

lemma schema_GenericServiceJob_D:
  assumes "schema_GenericServiceJob J c"
  obtains n items where "sc_network c = Val n" "sn_items n = Val items"
proof -
  from assms obtain n where n: "sc_network c = Val n"
    "required (array_items (schema_ServiceItem J)) (sn_items n)"
    by (cases "sc_network c") (auto simp: schema_GenericServiceJob_def)
  then obtain items where "sn_items n = Val items" by (cases "sn_items n") auto
  with n that show ?thesis by blast
qed

lemma schema_DockerDnsServiceJob_D:
  assumes "schema_DockerDnsServiceJob J c"
  obtains n items where "dc_network c = Val n" "dn_items n = Val items"
proof -
  from assms obtain n where n: "dc_network c = Val n"
    "required (array_items (schema_DnsItem J)) (dn_items n)"
    by (cases "dc_network c") (auto simp: schema_DockerDnsServiceJob_def)
  then obtain items where "dn_items n = Val items" by (cases "dn_items n") auto
  with n that show ?thesis by blast
qed

lemma prepare_any_case_install:
  assumes "schema_PrepareNetfilterJob J (jobConfiguration c)"
    and "global_trustedItems c \<noteq> Null"
    and "toLowerCase (jobCommand_type c) = ''install''"
    and "jobCommand_type c \<noteq> ''install''"
  shows "\<exists>defaults.
           fst (PrepareNetfilterJob_execute J c)
             = Inr (vital_unInstallCommands @ block_unInstallCommands @ access_unInstallCommands
                    @ trusted_unInstallCommands @ root_unInstallCommands defaults)
           \<and> commands_unInstall (snd (PrepareNetfilterJob_execute J c))
             = vital_unInstallCommands @ block_unInstallCommands @ access_unInstallCommands
                    @ trusted_unInstallCommands @ root_unInstallCommands defaults
           \<and> fst (PrepareNetfilterJob_execute J (c\<lparr>jobCommand_type := ''uninstall''\<rparr>))
             = Inr (root_unInstallCommands defaults @ trusted_unInstallCommands
                    @ access_unInstallCommands @ block_unInstallCommands @ vital_unInstallCommands)"
proof -
  from assms(1) obtain n where n: "pc_network (jobConfiguration c) = Val n"
    by (rule schema_PrepareNetfilterJob_D)
  from assms(1,2) n obtain ifs defaults where ifs: "pn_primaryInterfaces n = Val ifs"
    and d: "each_result interface_default_commands ifs = Inr defaults"
    and a: "each_result trusted_add_command
       (concat_argument (get_default (global_trustedItems c))
        @ concat_argument (get_default (pn_trustedItems n)))
     = Inr (map trusted_add (or_empty (global_trustedItems c) @ or_empty (pn_trustedItems n)))"
    by (rule prepare_valid)
  have d': "each_result interface_default_commands (or_empty (pn_primaryInterfaces n)) = Inr defaults"
    using d ifs by simp
  let ?u = "c\<lparr>jobCommand_type := ''uninstall''\<rparr>"
  have u: "schema_PrepareNetfilterJob J (jobConfiguration ?u)"
    "toLowerCase (jobCommand_type ?u) = ''uninstall''"
    "pc_network (jobConfiguration ?u) = Val n"
    "each_result trusted_add_command
       (concat_argument (get_default (global_trustedItems ?u))
        @ concat_argument (get_default (pn_trustedItems n)))
     = Inr (map trusted_add (or_empty (global_trustedItems c) @ or_empty (pn_trustedItems n)))"
    using assms(1) n a by (simp_all add: lowercase_tokens)
  show ?thesis
    using prepare_install_run(1,3) [OF assms(1,3) n a d'] prepare_uninstall_run(1) [OF u d']
      assms(4)
    by (intro exI [of _ "map snd defaults"]) simp
qed


lemma service_any_case_install:
  assumes "schema_GenericServiceJob J (jobConfiguration c)"
    and "configurationJob c = Val entry"
    and "toLowerCase (jobCommand_type c) = ''install''"
    and "jobCommand_type c \<noteq> ''install''"
  shows "fst (GenericServiceJob_execute J c)
           = Inr (commands_unInstall (snd (GenericServiceJob_execute J c)))
         \<and> fst (GenericServiceJob_execute J c)
           = fst (GenericServiceJob_execute J (c\<lparr>jobCommand_type := ''uninstall''\<rparr>))"
proof -
  from assms(1) obtain n where n: "sc_network (jobConfiguration c) = Val n"
    by (rule schema_GenericServiceJob_D)
  let ?u = "c\<lparr>jobCommand_type := ''uninstall''\<rparr>"
  have v: "valid_direction (jobCommand_type c)" "valid_direction (jobCommand_type ?u)"
    using assms(3) by (simp_all add: valid_direction_def lowercase_tokens)
  have u: "schema_GenericServiceJob J (jobConfiguration ?u)" "configurationJob ?u = Val entry"
    "sc_network (jobConfiguration ?u) = Val n"
    using assms(1,2) n by simp_all
  show ?thesis
    using service_run(1,3) [OF assms(1) v(1) assms(2) n] service_run(1) [OF u(1) v(2) u(2,3)]
      assms(4)
    by simp
qed

lemma dns_any_case_install:
  assumes "schema_DockerDnsServiceJob J (jobConfiguration c)"
    and "toLowerCase (jobCommand_type c) = ''install''"
    and "jobCommand_type c \<noteq> ''install''"
  shows "fst (DockerDnsServiceJob_execute J c)
           = Inr (commands_unInstall (snd (DockerDnsServiceJob_execute J c)))
         \<and> fst (DockerDnsServiceJob_execute J c)
           = fst (DockerDnsServiceJob_execute J (c\<lparr>jobCommand_type := ''uninstall''\<rparr>))"
proof -
  from assms(1) obtain n items where n: "dc_network (jobConfiguration c) = Val n"
    "dn_items n = Val items"
    by (rule schema_DockerDnsServiceJob_D)
  let ?u = "c\<lparr>jobCommand_type := ''uninstall''\<rparr>"
  have v: "valid_direction (jobCommand_type c)" "valid_direction (jobCommand_type ?u)"
    using assms(2) by (simp_all add: valid_direction_def lowercase_tokens)
  have u: "schema_DockerDnsServiceJob J (jobConfiguration ?u)"
    "dc_network (jobConfiguration ?u) = Val n"
    using assms(1) n by simp_all
  show ?thesis
    using dns_run(1,3) [OF assms(1) v(1) n] dns_run(1) [OF u(1) v(2) u(2) n(2)] assms(3)
    by simp
qed

lemma blacklist_any_case_install:
  assumes "schema_SynchronizeBlacklistIps J (jobConfiguration c)"
    and "bc_database (jobConfiguration c) = Val database"
    and "db_connectionString database = Val connectionString"
    and "query connectionString = Inr rows"
    and "toLowerCase (jobCommand_type c) = ''install''"
    and "jobCommand_type c \<noteq> ''install''"
  shows "fst (SynchronizeBlacklistIps_execute J query c)
           = Inr (commands_unInstall (snd (SynchronizeBlacklistIps_execute J query c)))
         \<and> fst (SynchronizeBlacklistIps_execute J query c)
           = fst (SynchronizeBlacklistIps_execute J query (c\<lparr>jobCommand_type := ''uninstall''\<rparr>))"
proof -
  let ?u = "c\<lparr>jobCommand_type := ''uninstall''\<rparr>"
  have v: "valid_direction (jobCommand_type c)" "valid_direction (jobCommand_type ?u)"
    using assms(5) by (simp_all add: valid_direction_def lowercase_tokens)
  have u: "schema_SynchronizeBlacklistIps J (jobConfiguration ?u)"
    "bc_database (jobConfiguration ?u) = Val database"
    using assms(1,2) by simp_all
  note a = blacklist_run(1,3) [where J = J and c = c and query = query and rows = rows
      and database = database and connectionString = connectionString]
  note b = blacklist_run(1) [where J = J and c = ?u and query = query and rows = rows
      and database = database and connectionString = connectionString]
  show ?thesis
    using a b assms v u by simp
qed

text \<open>
  C10, amended. A direction token that lowercases to \<open>install\<close> without being
  \<open>install\<close> is accepted, the job runs its install steps, and for a valid policy the
  run returns the uninstall list it has accumulated. For the generic service job, the
  docker DNS job and the blacklist job this is the transcript of direction
  \<open>uninstall\<close>. For the netfilter-preparation job it holds the commands of that
  transcript in the order of the install steps: the chains are flushed and destroyed
  first and the rules of \<open>INPUT\<close> and \<open>OUTPUT\<close> are deleted last.
\<close>

theorem install_in_other_case_returns_uninstall_list:
  assumes "toLowerCase token = ''install''" and "token \<noteq> ''install''"
  shows
    "(schema_PrepareNetfilterJob J (jobConfiguration c1) \<and> global_trustedItems c1 \<noteq> Null
        \<and> jobCommand_type c1 = token \<longrightarrow>
      (\<exists>defaults.
         fst (PrepareNetfilterJob_execute J c1)
           = Inr (vital_unInstallCommands @ block_unInstallCommands @ access_unInstallCommands
                  @ trusted_unInstallCommands @ root_unInstallCommands defaults)
         \<and> commands_unInstall (snd (PrepareNetfilterJob_execute J c1))
           = vital_unInstallCommands @ block_unInstallCommands @ access_unInstallCommands
                  @ trusted_unInstallCommands @ root_unInstallCommands defaults
         \<and> fst (PrepareNetfilterJob_execute J (c1\<lparr>jobCommand_type := ''uninstall''\<rparr>))
           = Inr (root_unInstallCommands defaults @ trusted_unInstallCommands
                  @ access_unInstallCommands @ block_unInstallCommands @ vital_unInstallCommands)))
     \<and> (schema_GenericServiceJob J (jobConfiguration c2) \<and> configurationJob c2 = Val entry
        \<and> jobCommand_type c2 = token \<longrightarrow>
      fst (GenericServiceJob_execute J c2)
        = Inr (commands_unInstall (snd (GenericServiceJob_execute J c2)))
      \<and> fst (GenericServiceJob_execute J c2)
        = fst (GenericServiceJob_execute J (c2\<lparr>jobCommand_type := ''uninstall''\<rparr>)))
     \<and> (schema_DockerDnsServiceJob J (jobConfiguration c3) \<and> jobCommand_type c3 = token \<longrightarrow>
      fst (DockerDnsServiceJob_execute J c3)
        = Inr (commands_unInstall (snd (DockerDnsServiceJob_execute J c3)))
      \<and> fst (DockerDnsServiceJob_execute J c3)
        = fst (DockerDnsServiceJob_execute J (c3\<lparr>jobCommand_type := ''uninstall''\<rparr>)))
     \<and> (schema_SynchronizeBlacklistIps J (jobConfiguration c4)
        \<and> bc_database (jobConfiguration c4) = Val database
        \<and> db_connectionString database = Val connectionString
        \<and> query connectionString = Inr rows
        \<and> jobCommand_type c4 = token \<longrightarrow>
      fst (SynchronizeBlacklistIps_execute J query c4)
        = Inr (commands_unInstall (snd (SynchronizeBlacklistIps_execute J query c4)))
      \<and> fst (SynchronizeBlacklistIps_execute J query c4)
        = fst (SynchronizeBlacklistIps_execute J query (c4\<lparr>jobCommand_type := ''uninstall''\<rparr>)))"
proof (intro conjI impI)
  assume "schema_PrepareNetfilterJob J (jobConfiguration c1) \<and> global_trustedItems c1 \<noteq> Null
        \<and> jobCommand_type c1 = token"
  with assms show "\<exists>defaults.
         fst (PrepareNetfilterJob_execute J c1)
           = Inr (vital_unInstallCommands @ block_unInstallCommands @ access_unInstallCommands
                  @ trusted_unInstallCommands @ root_unInstallCommands defaults)
         \<and> commands_unInstall (snd (PrepareNetfilterJob_execute J c1))
           = vital_unInstallCommands @ block_unInstallCommands @ access_unInstallCommands
                  @ trusted_unInstallCommands @ root_unInstallCommands defaults
         \<and> fst (PrepareNetfilterJob_execute J (c1\<lparr>jobCommand_type := ''uninstall''\<rparr>))
           = Inr (root_unInstallCommands defaults @ trusted_unInstallCommands
                  @ access_unInstallCommands @ block_unInstallCommands @ vital_unInstallCommands)"
    by (intro prepare_any_case_install) simp_all
next
  assume a: "schema_GenericServiceJob J (jobConfiguration c2) \<and> configurationJob c2 = Val entry
        \<and> jobCommand_type c2 = token"
  with assms service_any_case_install [of J c2 entry]
  show "fst (GenericServiceJob_execute J c2)
        = Inr (commands_unInstall (snd (GenericServiceJob_execute J c2)))"
    and "fst (GenericServiceJob_execute J c2)
        = fst (GenericServiceJob_execute J (c2\<lparr>jobCommand_type := ''uninstall''\<rparr>))"
    by auto
next
  assume a: "schema_DockerDnsServiceJob J (jobConfiguration c3) \<and> jobCommand_type c3 = token"
  with assms dns_any_case_install [of J c3]
  show "fst (DockerDnsServiceJob_execute J c3)
        = Inr (commands_unInstall (snd (DockerDnsServiceJob_execute J c3)))"
    and "fst (DockerDnsServiceJob_execute J c3)
        = fst (DockerDnsServiceJob_execute J (c3\<lparr>jobCommand_type := ''uninstall''\<rparr>))"
    by auto
next
  assume a: "schema_SynchronizeBlacklistIps J (jobConfiguration c4)
        \<and> bc_database (jobConfiguration c4) = Val database
        \<and> db_connectionString database = Val connectionString
        \<and> query connectionString = Inr rows
        \<and> jobCommand_type c4 = token"
  note b = blacklist_any_case_install [where J = J and c = c4 and query = query and rows = rows
      and database = database and connectionString = connectionString]
  from a assms b
  show "fst (SynchronizeBlacklistIps_execute J query c4)
        = Inr (commands_unInstall (snd (SynchronizeBlacklistIps_execute J query c4)))"
    and "fst (SynchronizeBlacklistIps_execute J query c4)
        = fst (SynchronizeBlacklistIps_execute J query (c4\<lparr>jobCommand_type := ''uninstall''\<rparr>))"
    by auto
qed


lemma other_example_fields:
  "jobCommand_type (service_example d) = d"
  "configurationJob (service_example d) = Val \<lparr>cj_name = Val ''job'', cj_chainName = Undefined\<rparr>"
  "jobCommand_type (dns_example d) = d"
  by (simp_all add: service_example_def dns_example_def example_context_def)

theorem install_in_other_case_returns_uninstall_list_witness:
  "toLowerCase ''INSTALL'' = ''install'' \<and> ''INSTALL'' \<noteq> ''install''
   \<and> (\<exists>defaults.
         fst (PrepareNetfilterJob_execute example_Joi (prepare_example ''INSTALL''))
           = Inr (vital_unInstallCommands @ block_unInstallCommands @ access_unInstallCommands
                  @ trusted_unInstallCommands @ root_unInstallCommands defaults)
         \<and> commands_unInstall (snd (PrepareNetfilterJob_execute example_Joi (prepare_example ''INSTALL'')))
           = vital_unInstallCommands @ block_unInstallCommands @ access_unInstallCommands
                  @ trusted_unInstallCommands @ root_unInstallCommands defaults
         \<and> fst (PrepareNetfilterJob_execute example_Joi
                  ((prepare_example ''INSTALL'')\<lparr>jobCommand_type := ''uninstall''\<rparr>))
           = Inr (root_unInstallCommands defaults @ trusted_unInstallCommands
                  @ access_unInstallCommands @ block_unInstallCommands @ vital_unInstallCommands))
   \<and> fst (GenericServiceJob_execute example_Joi (service_example ''INSTALL''))
       = Inr (commands_unInstall (snd (GenericServiceJob_execute example_Joi (service_example ''INSTALL''))))
   \<and> fst (GenericServiceJob_execute example_Joi (service_example ''INSTALL''))
       = fst (GenericServiceJob_execute example_Joi
                ((service_example ''INSTALL'')\<lparr>jobCommand_type := ''uninstall''\<rparr>))
   \<and> fst (DockerDnsServiceJob_execute example_Joi (dns_example ''INSTALL''))
       = Inr (commands_unInstall (snd (DockerDnsServiceJob_execute example_Joi (dns_example ''INSTALL''))))
   \<and> fst (DockerDnsServiceJob_execute example_Joi (dns_example ''INSTALL''))
       = fst (DockerDnsServiceJob_execute example_Joi
                ((dns_example ''INSTALL'')\<lparr>jobCommand_type := ''uninstall''\<rparr>))
   \<and> fst (SynchronizeBlacklistIps_execute example_Joi example_source (blacklist_example ''INSTALL''))
       = Inr (commands_unInstall
                (snd (SynchronizeBlacklistIps_execute example_Joi example_source (blacklist_example ''INSTALL''))))
   \<and> fst (SynchronizeBlacklistIps_execute example_Joi example_source (blacklist_example ''INSTALL''))
       = fst (SynchronizeBlacklistIps_execute example_Joi example_source
                ((blacklist_example ''INSTALL'')\<lparr>jobCommand_type := ''uninstall''\<rparr>))"
proof -
  have t: "toLowerCase ''INSTALL'' = ''install''" "''INSTALL'' \<noteq> ''install''"
    by (simp_all add: lowercase_INSTALL)
  note w = install_in_other_case_returns_uninstall_list
    [where J = example_Joi and ?c1.0 = "prepare_example ''INSTALL''"
      and ?c2.0 = "service_example ''INSTALL''" and ?c3.0 = "dns_example ''INSTALL''"
      and ?c4.0 = "blacklist_example ''INSTALL''" and query = example_source
      and entry = "\<lparr>cj_name = Val ''job'', cj_chainName = Undefined\<rparr>"
      and database = "\<lparr>db_connectionString = Val ''postgres://localhost/security''\<rparr>"
      and connectionString = "''postgres://localhost/security''"
      and rows = "[\<lparr>row_value = Val ''198.51.100.0/24''\<rparr>, \<lparr>row_value = Val ''203.0.113.0/24''\<rparr>]",
      OF t]
  have 1: "schema_PrepareNetfilterJob example_Joi (jobConfiguration (prepare_example ''INSTALL''))
      \<and> global_trustedItems (prepare_example ''INSTALL'') \<noteq> Null
      \<and> jobCommand_type (prepare_example ''INSTALL'') = ''INSTALL''"
    using prepare_example_valid prepare_example_fields(1,2) by blast
  have 2: "schema_GenericServiceJob example_Joi (jobConfiguration (service_example ''INSTALL''))
      \<and> configurationJob (service_example ''INSTALL'')
          = Val \<lparr>cj_name = Val ''job'', cj_chainName = Undefined\<rparr>
      \<and> jobCommand_type (service_example ''INSTALL'') = ''INSTALL''"
    using service_example_valid(1) other_example_fields(1,2) by blast
  have 3: "schema_DockerDnsServiceJob example_Joi (jobConfiguration (dns_example ''INSTALL''))
      \<and> jobCommand_type (dns_example ''INSTALL'') = ''INSTALL''"
    using dns_example_valid other_example_fields(3) by blast
  have 4: "schema_SynchronizeBlacklistIps example_Joi (jobConfiguration (blacklist_example ''INSTALL''))
        \<and> bc_database (jobConfiguration (blacklist_example ''INSTALL''))
            = Val \<lparr>db_connectionString = Val ''postgres://localhost/security''\<rparr>
        \<and> db_connectionString \<lparr>db_connectionString = Val ''postgres://localhost/security''\<rparr>
            = Val ''postgres://localhost/security''
        \<and> example_source ''postgres://localhost/security''
            = Inr [\<lparr>row_value = Val ''198.51.100.0/24''\<rparr>, \<lparr>row_value = Val ''203.0.113.0/24''\<rparr>]
        \<and> jobCommand_type (blacklist_example ''INSTALL'') = ''INSTALL''"
    using blacklist_example_valid blacklist_example_fields by blast
  show ?thesis
    using t w [THEN conjunct1, THEN mp, OF 1]
      w [THEN conjunct2, THEN conjunct1, THEN mp, OF 2]
      w [THEN conjunct2, THEN conjunct2, THEN conjunct1, THEN mp, OF 3]
      w [THEN conjunct2, THEN conjunct2, THEN conjunct2, THEN mp, OF 4]
    by blast
qed

lemma prepare_example_INSTALL:
  "fst (PrepareNetfilterJob_execute example_Joi (prepare_example ''INSTALL''))
     = Inr (vital_unInstallCommands @ block_unInstallCommands @ access_unInstallCommands
            @ trusted_unInstallCommands
            @ root_unInstallCommands [default_unInstall_command (Val ''eth0'') (Val ''DROP'')])"
proof -
  have low: "toLowerCase (jobCommand_type (prepare_example ''INSTALL'')) = ''install''"
    by (simp add: prepare_example_fields lowercase_INSTALL)
  have d: "each_result interface_default_commands (or_empty (pn_primaryInterfaces example_network))
             = Inr [(default_install_command (Val ''eth0'') (Val ''DROP''),
                     default_unInstall_command (Val ''eth0'') (Val ''DROP''))]"
    by (simp add: prepare_example_fields interface_default_commands_def)
  obtain adds where a: "each_result trusted_add_command
          (concat_argument (get_default (global_trustedItems (prepare_example ''INSTALL'')))
           @ concat_argument (get_default (pn_trustedItems example_network))) = Inr adds"
    by (simp add: prepare_example_def example_network_def trusted_add_command_def)
  show ?thesis
    using prepare_install_run(1) [OF prepare_example_valid low prepare_example_fields(3) a d]
    by (simp add: prepare_example_fields)
qed

text \<open>
  C10 as stated fails for the netfilter-preparation job: with the token \<open>INSTALL\<close> the
  run does not return the transcript of direction \<open>uninstall\<close>.
\<close>

theorem uppercase_install_is_not_the_uninstall_transcript_counterexample:
  "toLowerCase ''INSTALL'' = ''install'' \<and> ''INSTALL'' \<noteq> ''install''
   \<and> schema_PrepareNetfilterJob example_Joi (jobConfiguration (prepare_example ''INSTALL''))
   \<and> fst (PrepareNetfilterJob_execute example_Joi (prepare_example ''INSTALL''))
       \<noteq> fst (PrepareNetfilterJob_execute example_Joi (prepare_example ''uninstall''))"
  unfolding prepare_example_INSTALL prepare_example_uninstall
  by (simp add: lowercase_INSTALL prepare_example_valid vital_unInstallCommands_def
      root_unInstallCommands_def asIptables4Command_def Let_def)

lemma operands_simps [simp]:
  "operands f [] = {#}"
  "operands f (xs @ ys) = operands f xs + operands f ys"
  "operands f (x # xs) = (case f x of None \<Rightarrow> operands f xs | Some a \<Rightarrow> add_mset a (operands f xs))"
  by (simp_all add: operands_def List.map_filter_def split: option.splits)


































end
